theory Spec2Isabelle
  imports Complex_Main "HOL-Library.Log_Nat"
begin

section \<open>Feature properties and the style expressions the viewer installs\<close>

text \<open>
  A feature of a trip layer or of the aggregated collection carries numeric properties
  (\<open>Speed\<close>, \<open>gps_distance_m\<close>, \<open>time_diff_s\<close>, \<open>avg_speed\<close>, \<open>sample_count\<close>, ...).
  A property is absent (\<open>None\<close>), \<open>null\<close> or a finite number; finite JavaScript numbers
  are the rationals they denote.
\<close>

datatype jsval = Null | Num rat

text \<open>
  A number computed by the program is a double: a finite value, an infinity or NaN.
  The two zeros are identified.
\<close>

datatype jsnum = Fin rat | PInf | NInf | NaN

type_synonym props = "string \<rightharpoonup> jsval"

text \<open>
  The expressions built by the source are JavaScript arrays in the style language of the
  map library. The fragment the source uses:
  \<^item> \<open>['get', k]\<close>, a literal, and \<open>['coalesce', e1, ..., en]\<close> yield a value;
  \<open>['to-number', e]\<close> yields a number;
  \<^item> \<open>['interpolate', ['linear'], input, s0, c0, s1, c1, ...]\<close> and
  \<open>['step', input, c, s1, c1, ...]\<close> yield a colour;
  \<^item> \<open>['>=', e, k]\<close> is a filter.
\<close>

datatype vexpr = Get string | Lit jsval | Coalesce "vexpr list"

datatype nexpr = ToNumber vexpr

datatype cexpr =
    Interpolate nexpr "(rat \<times> string) list"
  | Step nexpr string "(rat \<times> string) list"

datatype fexpr = Ge vexpr jsnum

type_synonym rgb = "rat \<times> rat \<times> rat"

fun first_non_null :: "jsval list \<Rightarrow> jsval" where
  "first_non_null [] = Null"
| "first_non_null (Null # vs) = first_non_null vs"
| "first_non_null (Num x # vs) = Num x"

fun eval_v :: "props \<Rightarrow> vexpr \<Rightarrow> jsval" where
  "eval_v p (Get k) = (case p k of None \<Rightarrow> Null | Some v \<Rightarrow> v)"
| "eval_v p (Lit v) = v"
| "eval_v p (Coalesce es) = first_non_null (map (eval_v p) es)"

text \<open>\<open>to-number\<close> turns \<open>null\<close> into 0 and leaves a number as it is.\<close>

fun eval_n :: "props \<Rightarrow> nexpr \<Rightarrow> rat" where
  "eval_n p (ToNumber e) = (case eval_v p e of Null \<Rightarrow> 0 | Num x \<Rightarrow> x)"

definition hexval :: "char \<Rightarrow> nat option" where
  "hexval c =
     (let n = of_char c :: nat in
      if 48 \<le> n \<and> n \<le> 57 then Some (n - 48)
      else if 65 \<le> n \<and> n \<le> 70 then Some (n - 55)
      else if 97 \<le> n \<and> n \<le> 102 then Some (n - 87)
      else None)"

definition hexpair :: "char \<Rightarrow> char \<Rightarrow> rat option" where
  "hexpair a b =
     (case (hexval a, hexval b) of
        (Some h, Some l) \<Rightarrow> Some (of_nat (16 * h + l))
      | _ \<Rightarrow> None)"

text \<open>A colour literal \<open>#RRGGBB\<close> as its three channels, each between 0 and 255.\<close>

fun parse_color :: "string \<Rightarrow> rgb option" where
  "parse_color [h, r1, r2, g1, g2, b1, b2] =
     (if h = CHR ''#'' then
        (case (hexpair r1 r2, hexpair g1 g2, hexpair b1 b2) of
           (Some r, Some g, Some b) \<Rightarrow> Some (r, g, b)
         | _ \<Rightarrow> None)
      else None)"
| "parse_color _ = None"

definition mix :: "rgb \<Rightarrow> rgb \<Rightarrow> rat \<Rightarrow> rgb" where
  "mix a b t =
     (case (a, b) of
        ((r0, g0, b0), (r1, g1, b1)) \<Rightarrow>
          (r0 * (1 - t) + r1 * t, g0 * (1 - t) + g1 * t, b0 * (1 - t) + b1 * t))"

text \<open>
  Linear interpolation over the stops: at or below the first stop the first output, at or
  above the last stop the last output, in between the two neighbouring outputs mixed by
  the factor \<open>(v - lower) / (upper - lower)\<close>. An expression with no stop, or with a
  colour that does not parse, has no value.
\<close>

fun interpolate_linear :: "rat \<Rightarrow> (rat \<times> string) list \<Rightarrow> rgb option" where
  "interpolate_linear v [] = None"
| "interpolate_linear v [(s, c)] = parse_color c"
| "interpolate_linear v ((s0, c0) # (s1, c1) # rest) =
     (if v \<le> s0 then parse_color c0
      else if v < s1 then
        (case (parse_color c0, parse_color c1) of
           (Some a, Some b) \<Rightarrow> Some (mix a b ((v - s0) / (s1 - s0)))
         | _ \<Rightarrow> None)
      else interpolate_linear v ((s1, c1) # rest))"

text \<open>
  A step function: the default output below the first stop, otherwise the output of the
  last stop that is at most the input.
\<close>

fun step_output :: "rat \<Rightarrow> string \<Rightarrow> (rat \<times> string) list \<Rightarrow> string" where
  "step_output v d [] = d"
| "step_output v d ((s, c) # rest) = (if v < s then d else step_output v c rest)"

fun eval_c :: "props \<Rightarrow> cexpr \<Rightarrow> rgb option" where
  "eval_c p (Interpolate inp stops) = interpolate_linear (eval_n p inp) stops"
| "eval_c p (Step inp d stops) = parse_color (step_output (eval_n p inp) d stops)"

text \<open>
  A comparison filter admits a feature when the left side is a number that is at least
  the right side; a \<open>null\<close> on the left is a type error of the expression, and a filter
  that fails to evaluate admits nothing. No number is at least NaN.
\<close>

fun eval_f :: "props \<Rightarrow> fexpr \<Rightarrow> bool" where
  "eval_f p (Ge e k) =
     (case (eval_v p e, k) of
        (Num x, Fin y) \<Rightarrow> y \<le> x
      | (Num x, NInf) \<Rightarrow> True
      | _ \<Rightarrow> False)"

subsection \<open>The colouring functions\<close>

text \<open>\<open>getSpeedColorExpression\<close> and \<open>getAggregatedSpeedColorExpression\<close> of \<open>src/app.js\<close>.\<close>

definition getSpeedColorExpression :: "string \<Rightarrow> cexpr" where
  "getSpeedColorExpression mode =
     (if mode = ''gradient'' then
        Interpolate (ToNumber (Coalesce [Get ''Speed'', Lit (Num 0)]))
          [(0, ''#DC2626''), (5, ''#F97316''), (8, ''#FB923C''), (12, ''#FACC15''),
           (16, ''#BEF264''), (20, ''#4ADE80''), (25, ''#22C55E''), (30, ''#059669'')]
      else
        Step (ToNumber (Coalesce [Get ''Speed'', Lit (Num 0)])) ''#DC2626''
          [(5, ''#F97316''), (10, ''#FACC15''), (15, ''#BEF264''), (20, ''#4ADE80''),
           (25, ''#22C55E''), (30, ''#059669'')])"

definition getAggregatedSpeedColorExpression :: "string \<Rightarrow> cexpr" where
  "getAggregatedSpeedColorExpression mode =
     (if mode = ''gradient'' then
        Interpolate (ToNumber (Coalesce [Get ''avg_speed'', Lit (Num 0)]))
          [(0, ''#DC2626''), (5, ''#F97316''), (8, ''#FB923C''), (12, ''#FACC15''),
           (16, ''#BEF264''), (20, ''#4ADE80''), (25, ''#22C55E''), (30, ''#059669'')]
      else
        Step (ToNumber (Coalesce [Get ''avg_speed'', Lit (Num 0)])) ''#DC2626''
          [(5, ''#F97316''), (10, ''#FACC15''), (15, ''#BEF264''), (20, ''#4ADE80''),
           (25, ''#22C55E''), (30, ''#059669'')])"

text \<open>
  The trip-level function of the variant in \<open>src/unnamed/part_000\<close> (grey for stopped,
  its aggregated function is the one above).
\<close>

definition getSpeedColorExpression_part0 :: "string \<Rightarrow> cexpr" where
  "getSpeedColorExpression_part0 mode =
     (if mode = ''gradient'' then
        Interpolate (ToNumber (Coalesce [Get ''Speed'', Lit (Num 0)]))
          [(0, ''#808080''), (2, ''#DC2626''), (5, ''#F97316''), (8, ''#FACC15''),
           (12, ''#BEF264''), (16, ''#4ADE80''), (20, ''#22C55E''), (25, ''#059669'')]
      else
        Step (ToNumber (Coalesce [Get ''Speed'', Lit (Num 0)])) ''#808080''
          [(2, ''#DC2626''), (5, ''#F97316''), (10, ''#FACC15''), (15, ''#BEF264''),
           (20, ''#4ADE80''), (25, ''#22C55E''), (30, ''#059669'')])"

text \<open>
  The trip-level function of the viewer with trip selection (the application code that
  follows the generator script in \<open>src/generate-config.js\<close>).
\<close>

definition getSpeedColorExpression_sel :: "string \<Rightarrow> cexpr" where
  "getSpeedColorExpression_sel mode =
     (if mode = ''gradient'' then
        Interpolate (ToNumber (Coalesce [Get ''Speed'', Lit (Num 0)]))
          [(0, ''#808080''), (2, ''#DC2626''), (5, ''#F97316''), (10, ''#FACC15''),
           (15, ''#22C55E''), (20, ''#3B82F6''), (25, ''#6366F1'')]
      else
        Step (ToNumber (Coalesce [Get ''Speed'', Lit (Num 0)])) ''#808080''
          [(2, ''#DC2626''), (5, ''#F97316''), (10, ''#FACC15''), (15, ''#22C55E''),
           (20, ''#3B82F6''), (25, ''#6366F1'')])"

text \<open>A speed that the colouring policy must treat as 0: absent, \<open>null\<close> or negative.\<close>

definition no_speed :: "jsval option \<Rightarrow> bool" where
  "no_speed v = (case v of None \<Rightarrow> True | Some Null \<Rightarrow> True | Some (Num x) \<Rightarrow> x < 0)"

section \<open>JavaScript numbers\<close>

text \<open>
  Arithmetic on doubles: the exact result rounded to the nearest double, ties to the even
  significand, with gradual underflow below \<open>2^-1022\<close> and overflow to infinity.
  \<open>ilog2 x\<close> is the binary exponent of a positive \<open>x\<close>.
\<close>

definition pow2 :: "int \<Rightarrow> rat" where
  "pow2 e = (if 0 \<le> e then 2 ^ nat e else 1 / 2 ^ nat (- e))"

definition ilog2 :: "rat \<Rightarrow> int" where
  "ilog2 x = (if 1 \<le> x then bitlen \<lfloor>x\<rfloor> - 1 else - bitlen (\<lceil>1 / x\<rceil> - 1))"

definition round_half_even :: "rat \<Rightarrow> int" where
  "round_half_even x =
     (let f = \<lfloor>x\<rfloor>; d = x - of_int f in
      if d < 1 / 2 then f
      else if 1 / 2 < d then f + 1
      else if even f then f else f + 1)"

definition fl_pos :: "rat \<Rightarrow> jsnum" where
  "fl_pos x =
     (let e = max (ilog2 x) (- 1022);
          u = pow2 (e - 52);
          m = round_half_even (x / u)
      in if 1024 \<le> e \<or> (e = 1023 \<and> m = 2 ^ 53) then PInf else Fin (of_int m * u))"

fun js_neg :: "jsnum \<Rightarrow> jsnum" where
  "js_neg (Fin x) = Fin (- x)"
| "js_neg PInf = NInf"
| "js_neg NInf = PInf"
| "js_neg NaN = NaN"

definition fl :: "rat \<Rightarrow> jsnum" where
  "fl x = (if x = 0 then Fin 0 else if 0 < x then fl_pos x else js_neg (fl_pos (- x)))"

fun js_add :: "jsnum \<Rightarrow> jsnum \<Rightarrow> jsnum" where
  "js_add (Fin a) (Fin b) = fl (a + b)"
| "js_add NaN _ = NaN"
| "js_add _ NaN = NaN"
| "js_add PInf NInf = NaN"
| "js_add NInf PInf = NaN"
| "js_add PInf _ = PInf"
| "js_add _ PInf = PInf"
| "js_add NInf _ = NInf"
| "js_add _ NInf = NInf"

fun js_div :: "jsnum \<Rightarrow> jsnum \<Rightarrow> jsnum" where
  "js_div (Fin a) (Fin b) =
     (if b = 0 then (if a = 0 then NaN else if 0 < a then PInf else NInf)
      else fl (a / b))"
| "js_div (Fin a) PInf = Fin 0"
| "js_div (Fin a) NInf = Fin 0"
| "js_div PInf (Fin b) = (if 0 \<le> b then PInf else NInf)"
| "js_div NInf (Fin b) = (if 0 \<le> b then NInf else PInf)"
| "js_div _ _ = NaN"

definition trunc :: "rat \<Rightarrow> int" where
  "trunc q = (if 0 \<le> q then \<lfloor>q\<rfloor> else \<lceil>q\<rceil>)"

text \<open>The remainder \<open>a % b\<close> has the sign of \<open>a\<close> and is exact.\<close>

fun js_mod :: "jsnum \<Rightarrow> jsnum \<Rightarrow> jsnum" where
  "js_mod (Fin a) (Fin b) = (if b = 0 then NaN else Fin (a - b * of_int (trunc (a / b))))"
| "js_mod (Fin a) PInf = Fin a"
| "js_mod (Fin a) NInf = Fin a"
| "js_mod _ _ = NaN"

fun js_gt :: "jsnum \<Rightarrow> jsnum \<Rightarrow> bool" where
  "js_gt (Fin a) (Fin b) = (b < a)"
| "js_gt NaN _ = False"
| "js_gt _ NaN = False"
| "js_gt PInf PInf = False"
| "js_gt PInf _ = True"
| "js_gt NInf _ = False"
| "js_gt (Fin a) NInf = True"
| "js_gt (Fin a) PInf = False"

text \<open>\<open>Math.floor\<close> and \<open>Math.round\<close> (a tie goes up).\<close>

fun js_floor :: "jsnum \<Rightarrow> jsnum" where
  "js_floor (Fin x) = Fin (of_int \<lfloor>x\<rfloor>)"
| "js_floor v = v"

fun js_round :: "jsnum \<Rightarrow> jsnum" where
  "js_round (Fin x) = Fin (of_int \<lfloor>x + 1 / 2\<rfloor>)"
| "js_round v = v"

subsection \<open>Numbers as text\<close>

fun dec :: "nat \<Rightarrow> string" where
  "dec n = (if n < 10 then [char_of (48 + n)] else dec (n div 10) @ [char_of (48 + n mod 10)])"

declare dec.simps [simp del]

definition padStart :: "nat \<Rightarrow> char \<Rightarrow> string \<Rightarrow> string" where
  "padStart n c s = replicate (n - length s) c @ s"

text \<open>
  The text of a number, as a template literal or \<open>textContent\<close> renders it. An integer
  of magnitude up to \<open>2^53\<close> is its decimal digits; every other finite value is rendered
  by the runtime's shortest-digits algorithm, which is the parameter \<open>rt\<close>.
\<close>

definition js_toString :: "(rat \<Rightarrow> string) \<Rightarrow> jsnum \<Rightarrow> string" where
  "js_toString rt v =
     (case v of
        NaN \<Rightarrow> ''NaN''
      | PInf \<Rightarrow> ''Infinity''
      | NInf \<Rightarrow> ''-Infinity''
      | Fin x \<Rightarrow>
          if of_int \<lfloor>x\<rfloor> = x \<and> \<bar>x\<bar> \<le> 2 ^ 53
          then (if x < 0 then ''-'' else []) @ dec (nat \<bar>\<lfloor>x\<rfloor>\<bar>)
          else rt x)"

text \<open>
  \<open>x.toFixed(f)\<close>: the integer \<open>n\<close> with \<open>n / 10^f\<close> nearest to \<open>|x|\<close> (the larger one
  at a tie), written with \<open>f\<close> digits after the point and at least one before it.
\<close>

definition toFixed :: "(rat \<Rightarrow> string) \<Rightarrow> nat \<Rightarrow> jsnum \<Rightarrow> string" where
  "toFixed rt f v =
     (case v of
        NaN \<Rightarrow> ''NaN''
      | PInf \<Rightarrow> ''Infinity''
      | NInf \<Rightarrow> ''-Infinity''
      | Fin x \<Rightarrow>
          if 10 ^ 21 \<le> \<bar>x\<bar> then rt x
          else
            (let n = nat \<lfloor>\<bar>x\<bar> * 10 ^ f + 1 / 2\<rfloor>;
                 m = dec n;
                 m' = (if f = 0 then m
                       else (let z = padStart (f + 1) CHR ''0'' m;
                                 k = length z
                             in take (k - f) z @ ''.'' @ drop (k - f) z))
             in (if x < 0 then ''-'' else []) @ m'))"

subsection \<open>White space\<close>

text \<open>
  Text is a list of bytes in UTF-8. The white space that \<open>parseInt\<close> and \<open>trim\<close> skip
  is made of the six ASCII characters of \<open>is_space\<close>, of U+00A0 (two bytes) and of
  U+1680, U+2000 to U+200A, U+2028, U+2029, U+202F, U+205F, U+3000 and U+FEFF (three
  bytes each). \<open>ws_len\<close> is the number of bytes of the white-space character a text
  starts with, 0 if it starts with none; \<open>ws_len_rev\<close> is the same for the end of a
  text, read backwards.
\<close>

definition is_space :: "char \<Rightarrow> bool" where
  "is_space c = ((of_char c :: nat) \<in> {9, 10, 11, 12, 13, 32})"

definition ws2 :: "char \<Rightarrow> char \<Rightarrow> bool" where
  "ws2 a b = ((of_char a :: nat) = 0xC2 \<and> (of_char b :: nat) = 0xA0)"

definition ws3 :: "char \<Rightarrow> char \<Rightarrow> char \<Rightarrow> bool" where
  "ws3 a b c =
     (let x = of_char a :: nat; y = of_char b :: nat; z = of_char c :: nat in
      (x = 0xE1 \<and> y = 0x9A \<and> z = 0x80)
      \<or> (x = 0xE2 \<and> y = 0x80 \<and> ((0x80 \<le> z \<and> z \<le> 0x8A) \<or> z = 0xA8 \<or> z = 0xA9 \<or> z = 0xAF))
      \<or> (x = 0xE2 \<and> y = 0x81 \<and> z = 0x9F)
      \<or> (x = 0xE3 \<and> y = 0x80 \<and> z = 0x80)
      \<or> (x = 0xEF \<and> y = 0xBB \<and> z = 0xBF))"

fun ws_len :: "string \<Rightarrow> nat" where
  "ws_len (a # b # c # s) =
     (if is_space a then 1 else if ws2 a b then 2 else if ws3 a b c then 3 else 0)"
| "ws_len [a, b] = (if is_space a then 1 else if ws2 a b then 2 else 0)"
| "ws_len [a] = (if is_space a then 1 else 0)"
| "ws_len [] = 0"

fun ws_len_rev :: "string \<Rightarrow> nat" where
  "ws_len_rev (c # b # a # s) =
     (if is_space c then 1 else if ws2 b c then 2 else if ws3 a b c then 3 else 0)"
| "ws_len_rev [c, b] = (if is_space c then 1 else if ws2 b c then 2 else 0)"
| "ws_len_rev [c] = (if is_space c then 1 else 0)"
| "ws_len_rev [] = 0"

function drop_ws :: "string \<Rightarrow> string" where
  "drop_ws s = (if ws_len s = 0 then s else drop_ws (drop (ws_len s) s))"
  by pat_completeness auto
termination
  by (relation "measure length") (auto intro: diff_less elim: ws_len.elims)

function drop_ws_rev :: "string \<Rightarrow> string" where
  "drop_ws_rev s = (if ws_len_rev s = 0 then s else drop_ws_rev (drop (ws_len_rev s) s))"
  by pat_completeness auto
termination
  by (relation "measure length") (auto intro: diff_less elim: ws_len_rev.elims)

declare drop_ws.simps [simp del] drop_ws_rev.simps [simp del]

text \<open>
  \<open>parseInt(s)\<close>: optional white space and a sign, then the longest run of decimal
  digits, or of hexadecimal digits after \<open>0x\<close>; with no digit the result is NaN. The
  value is rounded to a double.
\<close>

definition is_digit :: "char \<Rightarrow> bool" where
  "is_digit c = (48 \<le> (of_char c :: nat) \<and> (of_char c :: nat) \<le> 57)"

fun digits_value :: "nat \<Rightarrow> string \<Rightarrow> nat" where
  "digits_value acc [] = acc"
| "digits_value acc (c # cs) = digits_value (10 * acc + (of_char c - 48)) cs"

fun hex_value :: "nat \<Rightarrow> string \<Rightarrow> nat" where
  "hex_value acc [] = acc"
| "hex_value acc (c # cs) = hex_value (16 * acc + (case hexval c of Some d \<Rightarrow> d | None \<Rightarrow> 0)) cs"

definition parseInt :: "string \<Rightarrow> jsnum" where
  "parseInt s =
     (let t = drop_ws s;
          neg = (t \<noteq> [] \<and> hd t = CHR ''-'');
          u = (if t \<noteq> [] \<and> (hd t = CHR ''-'' \<or> hd t = CHR ''+'') then tl t else t);
          hex = (take 2 u = ''0x'' \<or> take 2 u = ''0X'');
          ds = (if hex then takeWhile (\<lambda>c. hexval c \<noteq> None) (drop 2 u)
                else takeWhile is_digit u);
          n = (if hex then hex_value 0 ds else digits_value 0 ds)
      in if ds = [] then NaN
         else if neg then js_neg (fl (of_nat n))
         else fl (of_nat n))"

section \<open>The map, the page and the effects of the program\<close>

text \<open>
  The map object of the mapping library is modelled by what the program can change on it:
  its sources, its layers with their paint and layout properties and filter, the cursor
  and the popups. Every call that changes the map, every console entry and every alert
  is also recorded, in order, in \<open>trace\<close>. Pictograms in messages are left out.
\<close>

datatype paintval = PNum rat | PColor string | PExpr cexpr

record layer =
  l_source :: string
  l_paint :: "string \<rightharpoonup> paintval"
  l_layout :: "string \<rightharpoonup> string"
  l_filter :: "fexpr option"

datatype source = VectorSource string | GeoJSONSource "props list"

datatype mapcall =
    NewMap string "rat \<times> rat" rat
  | AddSource string
  | AddLayer string
  | SetPaintProperty string string paintval
  | SetLayoutProperty string string string
  | SetFilter string fexpr
  | SetCenter "jsnum \<times> jsnum"
  | SetZoom jsnum
  | JumpTo "jsnum \<times> jsnum" jsnum

datatype effect = ConsoleLog string | ConsoleError string | Alert string | MapCall mapcall

datatype field = FProp "jsval option" | FNA | FText string

record popup =
  p_lngLat :: "rat \<times> rat"
  p_title :: string
  p_fields :: "(string \<times> field) list"

datatype domtext = TextNum jsnum | TextStr string

text \<open>
  The state both viewers share: the program variables \<open>tripLayers\<close> and \<open>speedMode\<close>,
  the map, and the page elements the program reads and writes, by element id. The
  elements named in the source are taken to exist.
\<close>

record viewer =
  tripLayers :: "string list"
  speedMode :: string
  accessToken :: "string option"
  sources :: "string \<rightharpoonup> source"
  layers :: "string \<rightharpoonup> layer"
  cursor :: string
  popups :: "popup list"
  trace :: "effect list"
  el_text :: "string \<rightharpoonup> domtext"
  el_display :: "string \<rightharpoonup> string"
  el_checked :: "string \<Rightarrow> bool"
  el_value :: "string \<Rightarrow> string"
  el_options :: "(string \<times> string) list"
  radio_checked :: "string option"

datatype 'a outcome = Done 'a | Thrown 'a

datatype 'a fetched = Failed | Parsed 'a

definition emit :: "effect \<Rightarrow> 'a viewer_scheme \<Rightarrow> 'a viewer_scheme" where
  "emit e s = s\<lparr>trace := trace s @ [e]\<rparr>"

text \<open>
  Both viewers register \<open>map.on('error', ...)\<close>, which writes a console error. The
  library reports a call on a layer that does not exist as such an error event and
  changes nothing.
\<close>

definition map_error :: "'a viewer_scheme \<Rightarrow> 'a viewer_scheme" where
  "map_error s = emit (ConsoleError ''Map error:'') s"

definition setPaintProperty ::
  "string \<Rightarrow> string \<Rightarrow> paintval \<Rightarrow> 'a viewer_scheme \<Rightarrow> 'a viewer_scheme" where
  "setPaintProperty layerId name v s =
     (let s1 = emit (MapCall (SetPaintProperty layerId name v)) s in
      case layers s1 layerId of
        None \<Rightarrow> map_error s1
      | Some l \<Rightarrow> s1\<lparr>layers := (layers s1)(layerId \<mapsto> l\<lparr>l_paint := (l_paint l)(name \<mapsto> v)\<rparr>)\<rparr>)"

definition setLayoutProperty ::
  "string \<Rightarrow> string \<Rightarrow> string \<Rightarrow> 'a viewer_scheme \<Rightarrow> 'a viewer_scheme" where
  "setLayoutProperty layerId name v s =
     (let s1 = emit (MapCall (SetLayoutProperty layerId name v)) s in
      case layers s1 layerId of
        None \<Rightarrow> map_error s1
      | Some l \<Rightarrow> s1\<lparr>layers := (layers s1)(layerId \<mapsto> l\<lparr>l_layout := (l_layout l)(name \<mapsto> v)\<rparr>)\<rparr>)"

definition setFilter :: "string \<Rightarrow> fexpr \<Rightarrow> 'a viewer_scheme \<Rightarrow> 'a viewer_scheme" where
  "setFilter layerId f s =
     (let s1 = emit (MapCall (SetFilter layerId f)) s in
      case layers s1 layerId of
        None \<Rightarrow> map_error s1
      | Some l \<Rightarrow> s1\<lparr>layers := (layers s1)(layerId \<mapsto> l\<lparr>l_filter := Some f\<rparr>)\<rparr>)"

text \<open>
  \<open>addSource\<close> throws when the id is taken. \<open>addLayer\<close> reports a taken id or a missing
  source as an error event and adds nothing.
\<close>

definition addSource :: "string \<Rightarrow> source \<Rightarrow> 'a viewer_scheme \<Rightarrow> 'a viewer_scheme outcome" where
  "addSource srcId src s =
     (let s1 = emit (MapCall (AddSource srcId)) s in
      if srcId \<in> dom (sources s1) then Thrown s1
      else Done (s1\<lparr>sources := (sources s1)(srcId \<mapsto> src)\<rparr>))"

definition addLayer :: "string \<Rightarrow> layer \<Rightarrow> 'a viewer_scheme \<Rightarrow> 'a viewer_scheme" where
  "addLayer layerId l s =
     (let s1 = emit (MapCall (AddLayer layerId)) s in
      if layerId \<in> dom (layers s1) \<or> l_source l \<notin> dom (sources s1) then map_error s1
      else s1\<lparr>layers := (layers s1)(layerId \<mapsto> l)\<rparr>)"

definition set_text :: "string \<Rightarrow> domtext \<Rightarrow> 'a viewer_scheme \<Rightarrow> 'a viewer_scheme" where
  "set_text el t s = s\<lparr>el_text := (el_text s)(el \<mapsto> t)\<rparr>"

definition set_display :: "string \<Rightarrow> string \<Rightarrow> 'a viewer_scheme \<Rightarrow> 'a viewer_scheme" where
  "set_display el d s = s\<lparr>el_display := (el_display s)(el \<mapsto> d)\<rparr>"

definition show_popup :: "popup \<Rightarrow> 'a viewer_scheme \<Rightarrow> 'a viewer_scheme" where
  "show_popup p s = s\<lparr>popups := popups s @ [p]\<rparr>"

text \<open>A property value in a boolean position: absent, \<open>null\<close> and 0 are falsy.\<close>

definition truthy :: "jsval option \<Rightarrow> bool" where
  "truthy v = (case v of Some (Num x) \<Rightarrow> x \<noteq> 0 | _ \<Rightarrow> False)"

definition or_NA :: "jsval option \<Rightarrow> field" where
  "or_NA v = (if truthy v then FProp v else FNA)"

definition or_zero :: "jsval option \<Rightarrow> jsval" where
  "or_zero v = (if truthy v then the v else Num 0)"

definition replace_underscores :: "string \<Rightarrow> string" where
  "replace_underscores s = map (\<lambda>c. if c = CHR ''_'' then CHR '' '' else c) s"

fun remove_first :: "string \<Rightarrow> string \<Rightarrow> string" where
  "remove_first pat [] = []"
| "remove_first pat (c # cs) =
     (if take (length pat) (c # cs) = pat then drop (length pat) (c # cs)
      else c # remove_first pat cs)"

section \<open>The viewer of \<open>src/app.js\<close>\<close>

record config =
  MAPBOX_TOKEN :: "string option"
  PMTILES_URL :: string
  AGGREGATED_ROUTES_URL :: string
  MAP_CENTER :: "rat \<times> rat"
  MAP_ZOOM :: rat
  MAP_STYLE :: string

text \<open>
  \<open>trip_controls\<close> and \<open>aggregated_controls\<close> say whether \<open>setupTripControls\<close> and
  \<open>setupAggregatedControls\<close> have registered their listeners.
\<close>

record app = viewer +
  trip_controls :: bool
  aggregated_controls :: bool

record tilejson =
  vector_layers :: "string list option"

record geojson =
  features :: "props list option"

text \<open>The header of a tile archive, with the bounds of its data.\<close>

record header =
  minLon :: jsnum
  maxLon :: jsnum
  minLat :: jsnum
  maxLat :: jsnum

text \<open>
  The top level of the script, run on the page \<open>pg\<close>. A token that is \<open>undefined\<close>
  (\<open>None\<close>) or empty is falsy. What the constructor of the map does with the token is
  the library's business; the script calls it in every case.
\<close>

definition startup :: "config \<Rightarrow> app \<Rightarrow> app" where
  "startup cfg pg =
     (let s1 = emit (ConsoleLog ''Starting bike sensor visualization...'') pg;
          s2 = emit (ConsoleLog ''Config:'') s1;
          s3 = (if MAPBOX_TOKEN cfg = None \<or> MAPBOX_TOKEN cfg = Some []
                   \<or> MAPBOX_TOKEN cfg = Some ''YOUR_MAPBOX_TOKEN_HERE''
                then emit (ConsoleError ''Mapbox token not configured'')
                       (emit (Alert ''Please set your Mapbox token in config.js!'') s2)
                else s2);
          s4 = s3\<lparr>accessToken := MAPBOX_TOKEN cfg\<rparr>;
          s5 = emit (MapCall (NewMap (MAP_STYLE cfg) (MAP_CENTER cfg) (MAP_ZOOM cfg))) s4
      in s5\<lparr>tripLayers := [], speedMode := ''gradient''\<rparr>)"

definition trip_layer :: "string \<Rightarrow> layer" where
  "trip_layer layerId =
     \<lparr>l_source = ''trips'',
      l_paint = [''line-color'' \<mapsto> PColor ''#FF6600'', ''line-width'' \<mapsto> PNum 2,
                 ''line-opacity'' \<mapsto> PNum (4 / 10)],
      l_layout = Map.empty,
      l_filter = None\<rparr>"

definition aggregated_layer :: layer where
  "aggregated_layer =
     \<lparr>l_source = ''aggregated-routes'',
      l_paint = [''line-color'' \<mapsto> PExpr (getAggregatedSpeedColorExpression ''gradient''),
                 ''line-width'' \<mapsto> PNum 4, ''line-opacity'' \<mapsto> PNum (8 / 10)],
      l_layout = [''visibility'' \<mapsto> ''none''],
      l_filter = None\<rparr>"

definition add_option :: "string \<Rightarrow> app \<Rightarrow> app" where
  "add_option layerId s =
     s\<lparr>el_options := el_options s
          @ [(layerId, replace_underscores (remove_first ''_clean'' layerId))]\<rparr>"

definition setupTripControls :: "app \<Rightarrow> app" where
  "setupTripControls s = s\<lparr>trip_controls := True\<rparr>"

definition setupAggregatedControls :: "app \<Rightarrow> app" where
  "setupAggregatedControls s = s\<lparr>aggregated_controls := True\<rparr>"

text \<open>The text written to \<open>statAvgSpeed\<close> is an em dash, here its three bytes.\<close>

definition updateStats :: "app \<Rightarrow> app" where
  "updateStats s =
     (let selectedTrip = el_value s ''tripFilter'';
          activeTrips = (if selectedTrip = ''all'' then of_nat (length (tripLayers s)) else 1)
      in set_text ''statAvgSpeed'' (TextStr [CHR 0xE2, CHR 0x80, CHR 0x94])
           (set_text ''statTrips'' (TextNum (Fin activeTrips)) s))"

text \<open>
  The body of the first \<open>try\<close> of the load listener. \<open>resp\<close> is what
  \<open>fetch(CONFIG.PMTILES_URL)\<close> followed by \<open>response.json()\<close> gives: a failure of either
  is \<open>Failed\<close>. A TileJSON with no \<open>vector_layers\<close> makes \<open>.map\<close> throw.
\<close>

definition load_trips :: "config \<Rightarrow> tilejson fetched \<Rightarrow> app \<Rightarrow> app outcome" where
  "load_trips cfg resp s =
     (let s1 = emit (ConsoleLog ''Fetching PMTiles from:'') s in
      case addSource ''trips'' (VectorSource (PMTILES_URL cfg)) s1 of
        Thrown s2 \<Rightarrow> Thrown s2
      | Done s2 \<Rightarrow>
          (case resp of
             Failed \<Rightarrow> Thrown s2
           | Parsed tileJSON \<Rightarrow>
               (let s3 = emit (ConsoleLog ''TileJSON response:'') s2 in
                case vector_layers tileJSON of
                  None \<Rightarrow> Thrown s3
                | Some ids \<Rightarrow>
                    (let s4 = s3\<lparr>tripLayers := ids\<rparr>;
                         s5 = emit (ConsoleLog ''Found trip layers:'') s4;
                         s6 = fold (\<lambda>layerId. addLayer layerId (trip_layer layerId))
                                (tripLayers s5) s5;
                         s7 = emit (ConsoleLog ''Loaded trip layers'') s6;
                         s8 = fold add_option (tripLayers s7) s7;
                         s9 = setupTripControls s8
                     in Done (updateStats s9)))))"

text \<open>The body of the second \<open>try\<close>; a document with no \<open>features\<close> makes \<open>.length\<close> throw.\<close>

definition load_aggregated :: "config \<Rightarrow> geojson fetched \<Rightarrow> app \<Rightarrow> app outcome" where
  "load_aggregated cfg resp s =
     (let s1 = emit (ConsoleLog ''Fetching aggregated routes from:'') s in
      case resp of
        Failed \<Rightarrow> Thrown s1
      | Parsed aggregatedData \<Rightarrow>
          (case features aggregatedData of
             None \<Rightarrow> Thrown s1
           | Some fs \<Rightarrow>
               (let s2 = emit (ConsoleLog ''Aggregated data loaded:'') s1 in
                case addSource ''aggregated-routes'' (GeoJSONSource fs) s2 of
                  Thrown s3 \<Rightarrow> Thrown s3
                | Done s3 \<Rightarrow>
                    (let s4 = addLayer ''aggregated-routes-layer'' aggregated_layer s3;
                         s5 = emit (ConsoleLog ''Aggregated routes layer added'') s4
                     in Done (setupAggregatedControls s5)))))"

text \<open>
  The two load listeners, in the order of their registration. Each \<open>catch\<close> writes a
  console error and the listener goes on.
\<close>

definition on_load :: "config \<Rightarrow> tilejson fetched \<Rightarrow> geojson fetched \<Rightarrow> app \<Rightarrow> app" where
  "on_load cfg trips_resp aggregated_resp s =
     (let s1 = emit (ConsoleLog ''Base map loaded successfully'') s;
          s2 = emit (ConsoleLog ''Base map loaded, now loading data...'') s1;
          s3 = (case load_trips cfg trips_resp s2 of
                  Done t \<Rightarrow> t
                | Thrown t \<Rightarrow> emit (ConsoleError ''Error loading trips:'') t)
      in case load_aggregated cfg aggregated_resp s3 of
           Done t \<Rightarrow> t
         | Thrown t \<Rightarrow> emit (ConsoleError ''Error loading aggregated routes:'') t)"

subsection \<open>The load listener of the second variant\<close>

text \<open>
  The load listener of the variant in \<open>src/unnamed/part_000\<close>. It reads the header and
  the metadata of the archive first and registers the source \<open>trips\<close> after that; its
  second \<open>try\<close> and its controls are those of \<open>src/app.js\<close>.
\<close>

definition add_option_part0 :: "string \<Rightarrow> app \<Rightarrow> app" where
  "add_option_part0 layerId s =
     s\<lparr>el_options := el_options s @ [(layerId, replace_underscores layerId)]\<rparr>"

definition load_trips_part0 ::
  "config \<Rightarrow> string \<Rightarrow> header fetched \<Rightarrow> tilejson fetched \<Rightarrow> app \<Rightarrow> app outcome" where
  "load_trips_part0 cfg origin hdr meta s =
     (let s1 = emit (ConsoleLog ''Loading PMTiles from:'') s;
          pmtilesUrl = origin @ PMTILES_URL cfg
      in case hdr of
           Failed \<Rightarrow> Thrown s1
         | Parsed header \<Rightarrow>
             (case meta of
                Failed \<Rightarrow> Thrown s1
              | Parsed metadata \<Rightarrow>
                  (let s2 = emit (ConsoleLog ''PMTiles metadata:'') s1;
                       ids = (case vector_layers metadata of None \<Rightarrow> [] | Some ls \<Rightarrow> ls);
                       s3 = s2\<lparr>tripLayers := ids\<rparr>;
                       s4 = emit (ConsoleLog ''Found trip layers:'') s3
                   in case addSource ''trips'' (VectorSource (''pmtiles://'' @ pmtilesUrl)) s4 of
                        Thrown s5 \<Rightarrow> Thrown s5
                      | Done s5 \<Rightarrow>
                          (let s6 = fold (\<lambda>layerId. addLayer layerId (trip_layer layerId))
                                      (tripLayers s5) s5;
                               s7 = emit (ConsoleLog ''Loaded trip layers'') s6;
                               s8 = fold add_option_part0 (tripLayers s7) s7;
                               s9 = setupTripControls s8
                           in Done (updateStats s9)))))"

definition on_load_part0 ::
  "config \<Rightarrow> string \<Rightarrow> header fetched \<Rightarrow> tilejson fetched \<Rightarrow> geojson fetched \<Rightarrow> app \<Rightarrow> app" where
  "on_load_part0 cfg origin hdr meta aggregated_resp s =
     (let s1 = emit (ConsoleLog ''Base map loaded successfully'') s;
          s2 = emit (ConsoleLog ''Base map loaded, now loading data...'') s1;
          s3 = (case load_trips_part0 cfg origin hdr meta s2 of
                  Done t \<Rightarrow> t
                | Thrown t \<Rightarrow>
                    emit (ConsoleError ''Full error:'') (emit (ConsoleError ''Error loading trips:'') t))
      in case load_aggregated cfg aggregated_resp s3 of
           Done t \<Rightarrow> t
         | Thrown t \<Rightarrow> emit (ConsoleError ''Error loading aggregated routes:'') t)"

text \<open>
  The listeners of this variant are those of \<open>src/app.js\<close> below, except that the popup
  of a click on a trip layer is headed by the layer id; its input goes through
  \<open>dispatch_part0\<close>.
\<close>

subsection \<open>The listeners of \<open>setupTripControls\<close>\<close>

definition on_tripFilter_change :: "string \<Rightarrow> app \<Rightarrow> app" where
  "on_tripFilter_change selectedTrip s =
     updateStats
       (fold (\<lambda>layerId t.
                if selectedTrip = ''all'' then
                  setPaintProperty layerId ''line-opacity'' (PNum (4 / 10))
                    (setLayoutProperty layerId ''visibility'' ''visible'' t)
                else if layerId = selectedTrip then
                  setPaintProperty layerId ''line-opacity'' (PNum (9 / 10))
                    (setLayoutProperty layerId ''visibility'' ''visible'' t)
                else setLayoutProperty layerId ''visibility'' ''none'' t)
          (tripLayers s) s)"

definition on_tripsCheckbox_change :: "bool \<Rightarrow> app \<Rightarrow> app" where
  "on_tripsCheckbox_change checked s =
     (let visibility = (if checked then ''visible'' else ''none'');
          selectedTrip = el_value s ''tripFilter''
      in fold (\<lambda>layerId t.
                 if selectedTrip = ''all'' \<or> layerId = selectedTrip
                 then setLayoutProperty layerId ''visibility'' visibility t else t)
           (tripLayers s) s)"

definition on_speedSegments_change :: "bool \<Rightarrow> app \<Rightarrow> app" where
  "on_speedSegments_change checked s =
     (if checked then
        set_display ''speedLegend'' ''block''
          (fold (\<lambda>layerId t.
                   setPaintProperty layerId ''line-width'' (PNum 3)
                     (setPaintProperty layerId ''line-color''
                        (PExpr (getSpeedColorExpression (speedMode t))) t))
             (tripLayers s) s)
      else
        set_display ''speedLegend'' ''none''
          (fold (\<lambda>layerId t.
                   setPaintProperty layerId ''line-width'' (PNum 2)
                     (setPaintProperty layerId ''line-color'' (PColor ''#FF6600'') t))
             (tripLayers s) s))"

definition on_speedMode_change :: "string \<Rightarrow> app \<Rightarrow> app" where
  "on_speedMode_change v s =
     (let s1 = s\<lparr>speedMode := v\<rparr>;
          s2 = (if el_checked s1 ''speedSegmentsCheckbox'' then
                  fold (\<lambda>layerId t.
                          setPaintProperty layerId ''line-color''
                            (PExpr (getSpeedColorExpression (speedMode t))) t)
                    (tripLayers s1) s1
                else s1)
      in if el_checked s2 ''aggregatedCheckbox'' then
           setPaintProperty ''aggregated-routes-layer'' ''line-color''
             (PExpr (getAggregatedSpeedColorExpression (speedMode s2))) s2
         else s2)"

definition on_trip_click :: "props \<Rightarrow> rat \<times> rat \<Rightarrow> app \<Rightarrow> app" where
  "on_trip_click props lngLat s =
     show_popup
       \<lparr>p_lngLat = lngLat, p_title = ''Trip Segment'',
        p_fields =
          [(''Speed'', FProp (Some (or_zero (props ''Speed'')))),
           (''Distance'',
              if truthy (props ''distance_m'') then FProp (props ''distance_m'')
              else or_NA (props ''gps_distance_m'')),
           (''Time diff'', or_NA (props ''time_diff_s'')),
           (''HRot diff'', or_NA (props ''hrot_diff'')),
           (''Sample diff'', or_NA (props ''sample_diff''))]\<rparr> s"

subsection \<open>The listeners of \<open>setupAggregatedControls\<close>\<close>

text \<open>
  When the box is checked the listener reads the value of the checked \<open>speedMode\<close> radio
  button; with no button checked the read throws and the listener ends there.
\<close>

definition on_aggregated_change :: "bool \<Rightarrow> app \<Rightarrow> app" where
  "on_aggregated_change checked s =
     (let visibility = (if checked then ''visible'' else ''none'');
          s1 = setLayoutProperty ''aggregated-routes-layer'' ''visibility'' visibility s
      in if checked then
           (case radio_checked s1 of
              None \<Rightarrow> s1
            | Some currentMode \<Rightarrow>
                set_display ''speedLegend'' ''block''
                  (setPaintProperty ''aggregated-routes-layer'' ''line-color''
                     (PExpr (getAggregatedSpeedColorExpression currentMode)) s1))
         else s1)"

definition on_minSamples_input :: "string \<Rightarrow> app \<Rightarrow> app" where
  "on_minSamples_input v s =
     (let minSamples = parseInt v;
          s1 = set_text ''minSamplesValue'' (TextNum minSamples) s;
          filter_expr = Ge (Get ''sample_count'') minSamples
      in setFilter ''aggregated-routes-layer'' filter_expr s1)"

definition on_aggregated_click :: "props \<Rightarrow> rat \<times> rat \<Rightarrow> app \<Rightarrow> app" where
  "on_aggregated_click props lngLat s =
     show_popup
       \<lparr>p_lngLat = lngLat, p_title = ''Aggregated Route Segment'',
        p_fields =
          [(''Avg Speed'', FProp (props ''avg_speed'')),
           (''Samples'', FProp (props ''sample_count'')),
           (''Range min'', FProp (props ''min_speed'')),
           (''Range max'', FProp (props ''max_speed'')),
           (''Median'', FProp (props ''median_speed'')),
           (''Variance'', FProp (props ''speed_variance''))]\<rparr> s"

subsection \<open>User input\<close>

text \<open>
  An input event first changes the control on the page, as the browser does, and then
  runs the listener if it has been registered. A click or a pointer move over a layer
  reaches one listener for each time the layer id occurs in \<open>tripLayers\<close>.
\<close>

datatype event =
    TripFilterChange string
  | TripsCheckboxChange bool
  | SpeedSegmentsChange bool
  | SpeedModeChange string
  | AggregatedChange bool
  | MinSamplesInput string
  | TripLayerClick string props "rat \<times> rat"
  | AggregatedClick props "rat \<times> rat"
  | LayerMouseEnter string
  | LayerMouseLeave string

definition set_checked :: "string \<Rightarrow> bool \<Rightarrow> 'a viewer_scheme \<Rightarrow> 'a viewer_scheme" where
  "set_checked el b s = s\<lparr>el_checked := (el_checked s)(el := b)\<rparr>"

definition set_value :: "string \<Rightarrow> string \<Rightarrow> 'a viewer_scheme \<Rightarrow> 'a viewer_scheme" where
  "set_value el v s = s\<lparr>el_value := (el_value s)(el := v)\<rparr>"

definition listens :: "app \<Rightarrow> string \<Rightarrow> bool" where
  "listens s layerId =
     ((trip_controls s \<and> layerId \<in> set (tripLayers s))
      \<or> (aggregated_controls s \<and> layerId = ''aggregated-routes-layer''))"

fun dispatch :: "event \<Rightarrow> app \<Rightarrow> app" where
  "dispatch (TripFilterChange v) s =
     (let s1 = set_value ''tripFilter'' v s
      in if trip_controls s1 then on_tripFilter_change v s1 else s1)"
| "dispatch (TripsCheckboxChange b) s =
     (let s1 = set_checked ''tripsCheckbox'' b s
      in if trip_controls s1 then on_tripsCheckbox_change b s1 else s1)"
| "dispatch (SpeedSegmentsChange b) s =
     (let s1 = set_checked ''speedSegmentsCheckbox'' b s
      in if trip_controls s1 then on_speedSegments_change b s1 else s1)"
| "dispatch (SpeedModeChange v) s =
     (let s1 = s\<lparr>radio_checked := Some v\<rparr>
      in if trip_controls s1 then on_speedMode_change v s1 else s1)"
| "dispatch (AggregatedChange b) s =
     (let s1 = set_checked ''aggregatedCheckbox'' b s
      in if aggregated_controls s1 then on_aggregated_change b s1 else s1)"
| "dispatch (MinSamplesInput v) s =
     (let s1 = set_value ''minSamplesSlider'' v s
      in if aggregated_controls s1 then on_minSamples_input v s1 else s1)"
| "dispatch (TripLayerClick layerId props lngLat) s =
     (if trip_controls s then
        fold (\<lambda>l t. if l = layerId then on_trip_click props lngLat t else t) (tripLayers s) s
      else s)"
| "dispatch (AggregatedClick props lngLat) s =
     (if aggregated_controls s then on_aggregated_click props lngLat s else s)"
| "dispatch (LayerMouseEnter layerId) s = (if listens s layerId then s\<lparr>cursor := ''pointer''\<rparr> else s)"
| "dispatch (LayerMouseLeave layerId) s = (if listens s layerId then s\<lparr>cursor := []\<rparr> else s)"

text \<open>The click popup and the input of the variant in \<open>src/unnamed/part_000\<close>.\<close>

definition on_trip_click_part0 :: "string \<Rightarrow> props \<Rightarrow> rat \<times> rat \<Rightarrow> app \<Rightarrow> app" where
  "on_trip_click_part0 layerId props lngLat s =
     show_popup
       \<lparr>p_lngLat = lngLat, p_title = ''Trip: '' @ layerId,
        p_fields =
          [(''Speed'', FProp (Some (or_zero (props ''Speed'')))),
           (''Distance'',
              if truthy (props ''distance_m'') then FProp (props ''distance_m'')
              else or_NA (props ''gps_distance_m'')),
           (''Time diff'', or_NA (props ''time_diff_s'')),
           (''HRot diff'', or_NA (props ''hrot_diff'')),
           (''Sample diff'', or_NA (props ''sample_diff''))]\<rparr> s"

definition dispatch_part0 :: "event \<Rightarrow> app \<Rightarrow> app" where
  "dispatch_part0 ev s =
     (case ev of
        TripLayerClick layerId props lngLat \<Rightarrow>
          if trip_controls s then
            fold (\<lambda>l t. if l = layerId then on_trip_click_part0 l props lngLat t else t)
              (tripLayers s) s
          else s
      | _ \<Rightarrow> dispatch ev s)"

text \<open>
  The generator script at the head of \<open>src/generate-config.js\<close> writes a \<open>config.js\<close>
  from the environment. It puts \<open>process.env.MAPBOX_TOKEN\<close> into a template literal
  between quotes, so that a variable that is not set is written as the text
  \<open>undefined\<close>. The token is taken to hold no quote, backslash or line break.
\<close>

definition generate_config :: "string option \<Rightarrow> config" where
  "generate_config env_MAPBOX_TOKEN =
     \<lparr>MAPBOX_TOKEN = Some (case env_MAPBOX_TOKEN of None \<Rightarrow> ''undefined'' | Some t \<Rightarrow> t),
      PMTILES_URL = ''http://localhost:8080/data/pmtiles.json'',
      AGGREGATED_ROUTES_URL = ''http://localhost:8000/aggregated_routes.geojson'',
      MAP_CENTER = (49 / 10, 5237 / 100),
      MAP_ZOOM = 11,
      MAP_STYLE = ''mapbox://styles/mapbox/dark-v11''\<rparr>"

text \<open>A page before the script runs: an empty style, the first radio button checked.\<close>

definition blank :: app where
  "blank =
     \<lparr>tripLayers = [], speedMode = [], accessToken = None, sources = Map.empty,
      layers = Map.empty, cursor = [], popups = [], trace = [], el_text = Map.empty,
      el_display = Map.empty, el_checked = (\<lambda>_. False), el_value = (\<lambda>_. ''all''),
      el_options = [], radio_checked = Some ''gradient'', trip_controls = False,
      aggregated_controls = False\<rparr>"

definition local_config :: config where
  "local_config =
     \<lparr>MAPBOX_TOKEN = None,
      PMTILES_URL = ''http://localhost:8080/data/pmtiles.json'',
      AGGREGATED_ROUTES_URL = ''http://localhost:8000/aggregated_routes.geojson'',
      MAP_CENTER = (49 / 10, 5237 / 100),
      MAP_ZOOM = 11,
      MAP_STYLE = ''mapbox://styles/mapbox/dark-v11''\<rparr>"

section \<open>The viewer with trip selection\<close>

text \<open>
  The application code that follows the generator script in \<open>src/generate-config.js\<close>:
  \<open>setupControls\<close>, \<open>setupClickHandlers\<close>, \<open>loadAllTripData\<close> and
  \<open>calculateAllTripStats\<close>.
\<close>

subsection \<open>Trip statistics\<close>

text \<open>
  The average speed is written three times in the source, each time as
  \<open>totalTime > 0 ? ((totalDistance / 1000) / (totalTime / 3600)).toFixed(1) : 0\<close>; the
  value is then put into a template literal, where the number 0 reads \<open>0\<close>. The second
  component lists the divisions that were evaluated, as pairs of dividend and divisor, in
  the order of evaluation.
\<close>

definition div_rec :: "jsnum \<Rightarrow> jsnum \<Rightarrow> jsnum \<times> (jsnum \<times> jsnum) list" where
  "div_rec a b = (js_div a b, [(a, b)])"

definition avgSpeed :: "(rat \<Rightarrow> string) \<Rightarrow> jsnum \<Rightarrow> jsnum \<Rightarrow> string \<times> (jsnum \<times> jsnum) list" where
  "avgSpeed rt totalDistance totalTime =
     (if js_gt totalTime (Fin 0) then
        (case div_rec totalDistance (Fin 1000) of (km, l1) \<Rightarrow>
         case div_rec totalTime (Fin 3600) of (h, l2) \<Rightarrow>
         case div_rec km h of (q, l3) \<Rightarrow> (toFixed rt 1 q, l1 @ l2 @ l3))
      else (js_toString rt (Fin 0), []))"

record popup_stats =
  distanceKm :: string
  popup_avgSpeed :: string
  durationFormatted :: string

definition click_stats :: "(rat \<Rightarrow> string) \<Rightarrow> jsnum \<Rightarrow> jsnum \<Rightarrow> popup_stats" where
  "click_stats rt totalDistance totalTime =
     (let durationMinutes = js_floor (js_div totalTime (Fin 60));
          durationSeconds = js_round (js_mod totalTime (Fin 60))
      in \<lparr>distanceKm = toFixed rt 2 (js_div totalDistance (Fin 1000)),
          popup_avgSpeed = fst (avgSpeed rt totalDistance totalTime),
          durationFormatted =
            js_toString rt durationMinutes @ '':''
              @ padStart 2 CHR ''0'' (js_toString rt durationSeconds)\<rparr>)"

record summary_stats =
  totalDistanceKm :: string
  summary_avgSpeed :: string
  totalTimeFormatted :: string

definition total_stats :: "(rat \<Rightarrow> string) \<Rightarrow> jsnum \<Rightarrow> jsnum \<Rightarrow> summary_stats" where
  "total_stats rt totalDistance totalTime =
     (let totalHours = js_floor (js_div totalTime (Fin 3600));
          totalMinutes = js_floor (js_div (js_mod totalTime (Fin 3600)) (Fin 60))
      in \<lparr>totalDistanceKm = toFixed rt 1 (js_div totalDistance (Fin 1000)),
          summary_avgSpeed = fst (avgSpeed rt totalDistance totalTime),
          totalTimeFormatted =
            (if js_gt totalHours (Fin 0)
             then js_toString rt totalHours @ ''h '' @ js_toString rt totalMinutes @ ''m''
             else js_toString rt totalMinutes @ ''m'')\<rparr>)"

definition num_of :: "jsval \<Rightarrow> jsnum" where
  "num_of v = (case v of Num x \<Rightarrow> Fin x | Null \<Rightarrow> Fin 0)"

text \<open>The sums of \<open>gps_distance_m || 0\<close> and \<open>time_diff_s || 0\<close> over features.\<close>

definition sum_features :: "props list \<Rightarrow> jsnum \<times> jsnum" where
  "sum_features fs =
     fold (\<lambda>feature (d, t).
             (js_add d (num_of (or_zero (feature ''gps_distance_m''))),
              js_add t (num_of (or_zero (feature ''time_diff_s'')))))
       fs (Fin 0, Fin 0)"

subsection \<open>Names\<close>

definition lower :: "char \<Rightarrow> char" where
  "lower c = (let n = of_char c :: nat in if 65 \<le> n \<and> n \<le> 90 then char_of (n + 32) else c)"

function remove_all_ci :: "string \<Rightarrow> string \<Rightarrow> string" where
  "remove_all_ci pat [] = []"
| "remove_all_ci pat (c # cs) =
     (if pat \<noteq> [] \<and> map lower (take (length pat) (c # cs)) = pat
      then remove_all_ci pat (drop (length pat) (c # cs))
      else c # remove_all_ci pat cs)"
  by pat_completeness auto
termination
  by (relation "measure (\<lambda>(pat, s). length s)") auto

text \<open>\<open>trim\<close> removes the white space at both ends.\<close>

definition trim :: "string \<Rightarrow> string" where
  "trim s = rev (drop_ws_rev (rev (drop_ws s)))"

text \<open>\<open>layerId.replace(/_/g, ' ').replace(/processed/gi, '').trim()\<close>\<close>

definition trip_name :: "string \<Rightarrow> string" where
  "trip_name layerId = trim (remove_all_ci ''processed'' (replace_underscores layerId))"

subsection \<open>State\<close>

text \<open>
  \<open>controls\<close> and \<open>click_handlers\<close> say whether \<open>setupControls\<close> and
  \<open>setupClickHandlers\<close> have registered their listeners. \<open>stats_timer\<close> and
  \<open>calc_timer\<close> hold the saved view of a pending \<open>setTimeout\<close> of \<open>loadAllTripData\<close>
  and of \<open>calculateAllTripStats\<close>.
\<close>

record sel = viewer +
  showSpeedColors :: bool
  selectedTrip :: "string option"
  tripStatsCalculated :: bool
  allTripData :: "string \<rightharpoonup> jsnum \<times> jsnum"
  view_center :: "jsnum \<times> jsnum"
  view_zoom :: jsnum
  controls :: bool
  click_handlers :: bool
  stats_timer :: "((jsnum \<times> jsnum) \<times> jsnum) option"
  calc_timer :: "((jsnum \<times> jsnum) \<times> jsnum) option"

record click =
  c_lngLat :: "rat \<times> rat"
  c_hits :: "string \<Rightarrow> props list"
  c_rendered :: "string \<Rightarrow> props list"

definition DEFAULT_COLOR :: string where
  "DEFAULT_COLOR = ''#FF6600''"

definition startup_sel :: "config \<Rightarrow> sel \<Rightarrow> sel" where
  "startup_sel cfg pg =
     (let s1 = emit (ConsoleLog ''Starting bike visualization...'') pg;
          s2 = s1\<lparr>accessToken := MAPBOX_TOKEN cfg\<rparr>;
          s3 = emit (MapCall (NewMap (MAP_STYLE cfg) (MAP_CENTER cfg) (MAP_ZOOM cfg))) s2
      in s3\<lparr>tripLayers := [], speedMode := ''gradient'', showSpeedColors := False,
            selectedTrip := None, tripStatsCalculated := False, allTripData := Map.empty,
            view_center := (Fin (fst (MAP_CENTER cfg)), Fin (snd (MAP_CENTER cfg))),
            view_zoom := Fin (MAP_ZOOM cfg)\<rparr>)"

definition sel_layer :: "string \<Rightarrow> layer" where
  "sel_layer layerId =
     \<lparr>l_source = ''trips'',
      l_paint = [''line-color'' \<mapsto> PColor DEFAULT_COLOR, ''line-width'' \<mapsto> PNum 3,
                 ''line-opacity'' \<mapsto> PNum (7 / 10)],
      l_layout = Map.empty,
      l_filter = None\<rparr>"

definition setCenter :: "jsnum \<times> jsnum \<Rightarrow> sel \<Rightarrow> sel" where
  "setCenter c s = emit (MapCall (SetCenter c)) (s\<lparr>view_center := c\<rparr>)"

definition setZoom :: "jsnum \<Rightarrow> sel \<Rightarrow> sel" where
  "setZoom z s = emit (MapCall (SetZoom z)) (s\<lparr>view_zoom := z\<rparr>)"

definition jumpTo :: "jsnum \<times> jsnum \<Rightarrow> jsnum \<Rightarrow> sel \<Rightarrow> sel" where
  "jumpTo c z s = emit (MapCall (JumpTo c z)) (s\<lparr>view_center := c, view_zoom := z\<rparr>)"

subsection \<open>\<open>setupControls\<close> and its listeners\<close>

definition setupControls :: "bool \<Rightarrow> sel \<Rightarrow> sel" where
  "setupControls speedColorsCheckbox_present s =
     (if \<not> speedColorsCheckbox_present
      then emit (ConsoleError ''Missing speedColorsCheckbox element'') s
      else s\<lparr>controls := True\<rparr>)"

definition on_speedColors_change :: "bool \<Rightarrow> sel \<Rightarrow> sel" where
  "on_speedColors_change checked s =
     (let s1 = emit (ConsoleLog ''Speed colors toggled:'') (s\<lparr>showSpeedColors := checked\<rparr>)
      in if showSpeedColors s1 then
           (let colorExpression = getSpeedColorExpression_sel (speedMode s1);
                s2 = emit (ConsoleLog ''Applying color expression:'') s1;
                s3 = fold (\<lambda>layerId. setPaintProperty layerId ''line-color'' (PExpr colorExpression))
                       (tripLayers s2) s2
            in set_display ''speedModeGroup'' ''block'' (set_display ''speedLegend'' ''block'' s3))
         else
           (let s3 = fold (\<lambda>layerId. setPaintProperty layerId ''line-color'' (PColor DEFAULT_COLOR))
                       (tripLayers s1) s1
            in set_display ''speedModeGroup'' ''none'' (set_display ''speedLegend'' ''none'' s3)))"

definition on_speedMode_change_sel :: "string \<Rightarrow> sel \<Rightarrow> sel" where
  "on_speedMode_change_sel v s =
     (let s1 = s\<lparr>speedMode := v\<rparr>
      in if showSpeedColors s1 then
           fold (\<lambda>layerId t.
                   setPaintProperty layerId ''line-color''
                     (PExpr (getSpeedColorExpression_sel (speedMode t))) t)
             (tripLayers s1) s1
         else s1)"

subsection \<open>\<open>setupClickHandlers\<close> and its listeners\<close>

definition setupClickHandlers :: "sel \<Rightarrow> sel" where
  "setupClickHandlers s = s\<lparr>click_handlers := True\<rparr>"

text \<open>
  The restyling loop of a click on \<open>layerId\<close>. The \<open>try\<close> around the two calls never
  catches anything here, since a call on a missing layer is reported as an error event.
\<close>

definition highlight :: "string \<Rightarrow> sel \<Rightarrow> sel" where
  "highlight layerId s =
     fold (\<lambda>l t.
             if l = layerId then
               emit (ConsoleLog ''Highlighted:'')
                 (setPaintProperty l ''line-width'' (PNum 4)
                    (setPaintProperty l ''line-opacity'' (PNum 1) t))
             else
               emit (ConsoleLog ''Faded:'')
                 (setPaintProperty l ''line-width'' (PNum 2)
                    (setPaintProperty l ''line-opacity'' (PNum (15 / 100)) t)))
       (tripLayers s) s"

text \<open>
  \<open>allTripData\<close> is a plain object, so the test \<open>if (allTripData[layerId])\<close> also finds
  what the object inherits. An entry stored for the layer is found first. Otherwise a
  layer id that is a property name of \<open>Object.prototype\<close> finds a function or an object,
  which is truthy and has no \<open>distance\<close> or \<open>time\<close>: both totals are then \<open>undefined\<close>
  and count as NaN in all that follows. An entry stored under \<open>__proto__\<close> becomes the
  prototype of the object, so that the layer ids \<open>distance\<close> and \<open>time\<close> then find its
  two numbers, with the same outcome when the number is truthy.
\<close>

definition object_prototype_keys :: "string list" where
  "object_prototype_keys =
     [''constructor'', ''__defineGetter__'', ''__defineSetter__'', ''hasOwnProperty'',
      ''__lookupGetter__'', ''__lookupSetter__'', ''isPrototypeOf'', ''propertyIsEnumerable'',
      ''toString'', ''valueOf'', ''__proto__'', ''toLocaleString'']"

definition truthy_num :: "jsnum \<Rightarrow> bool" where
  "truthy_num v = (v \<noteq> NaN \<and> v \<noteq> Fin 0)"

definition cached_totals :: "(string \<rightharpoonup> jsnum \<times> jsnum) \<Rightarrow> string \<Rightarrow> (jsnum \<times> jsnum) option" where
  "cached_totals d layerId =
     (case d layerId of
        Some cached \<Rightarrow> Some cached
      | None \<Rightarrow>
          if layerId \<in> set object_prototype_keys then Some (NaN, NaN)
          else (case d ''__proto__'' of
                  Some (distance, time) \<Rightarrow>
                    if (layerId = ''distance'' \<and> truthy_num distance)
                       \<or> (layerId = ''time'' \<and> truthy_num time)
                    then Some (NaN, NaN) else None
                | None \<Rightarrow> None))"

text \<open>
  The listener of a click on a feature of \<open>layerId\<close>; \<open>props\<close> are the properties of
  the first feature under the pointer. The totals come from \<open>allTripData\<close> if the lookup
  finds something, and from the features rendered in the viewport otherwise. The popup
  holds the values the template interpolates, each under the label that precedes it.
\<close>

definition on_layer_click :: "(rat \<Rightarrow> string) \<Rightarrow> string \<Rightarrow> props \<Rightarrow> click \<Rightarrow> sel \<Rightarrow> sel" where
  "on_layer_click rt layerId props e s =
     (let s1 = emit (ConsoleLog ''Layer clicked:'') s;
          speed = or_zero (props ''Speed'');
          s2 = highlight layerId (s1\<lparr>selectedTrip := Some layerId\<rparr>);
          s3 = set_text ''selectedTrip'' (TextStr (trip_name layerId))
                 (set_display ''selectedTripRow'' ''flex'' s2);
          totals = (case cached_totals (allTripData s3) layerId of
                      Some cached \<Rightarrow> cached
                    | None \<Rightarrow> sum_features (c_rendered e layerId));
          s4 = emit (ConsoleLog (case cached_totals (allTripData s3) layerId of
                                   Some cached \<Rightarrow> ''Using cached data''
                                 | None \<Rightarrow> ''Queried features'')) s3;
          st = click_stats rt (fst totals) (snd totals)
      in show_popup
           \<lparr>p_lngLat = c_lngLat e, p_title = trip_name layerId,
            p_fields =
              [(''Speed at point'', FProp (Some speed)),
               (''Average speed'', FText (popup_avgSpeed st)),
               (''Total distance'', FText (distanceKm st)),
               (''Duration'', FText (durationFormatted st))]\<rparr> s4)"

text \<open>
  The listener of a click anywhere on the map. \<open>selectedTrip\<close> is tested for truth, so
  an empty layer id counts as no selection.
\<close>

definition on_background_click :: "bool \<Rightarrow> sel \<Rightarrow> sel" where
  "on_background_click defaultPrevented s =
     (let s1 = emit (ConsoleLog ''Map background clicked, defaultPrevented:'') s
      in if \<not> defaultPrevented \<and> selectedTrip s1 \<noteq> None \<and> selectedTrip s1 \<noteq> Some [] then
           (let s2 = emit (ConsoleLog ''Resetting from background click'') s1;
                s3 = s2\<lparr>selectedTrip := None\<rparr>;
                s4 = fold (\<lambda>layerId t.
                             setPaintProperty layerId ''line-width'' (PNum 3)
                               (setPaintProperty layerId ''line-opacity'' (PNum (7 / 10)) t))
                       (tripLayers s3) s3
            in set_display ''selectedTripRow'' ''none'' s4)
         else s1)"

text \<open>
  One click on the map. The library calls the listener of every trip layer that has a
  feature under the pointer, in the order of registration, and then the listener for the
  whole map; a layer listener calls \<open>preventDefault\<close> on the event they share.
\<close>

definition map_click :: "(rat \<Rightarrow> string) \<Rightarrow> click \<Rightarrow> sel \<Rightarrow> sel" where
  "map_click rt e s =
     (case fold (\<lambda>layerId (t, prevented).
                   case (layers t layerId, c_hits e layerId) of
                     (Some l, props # others) \<Rightarrow> (on_layer_click rt layerId props e t, True)
                   | _ \<Rightarrow> (t, prevented))
             (tripLayers s) (s, False)
      of (t, prevented) \<Rightarrow> on_background_click prevented t)"

subsection \<open>\<open>loadAllTripData\<close> and \<open>calculateAllTripStats\<close>\<close>

definition length_num :: "'a list \<Rightarrow> jsnum" where
  "length_num xs = Fin (of_nat (length xs))"

text \<open>
  The part of \<open>loadAllTripData\<close> that runs before the timeout; \<open>hdr\<close> is what
  \<open>pmtiles.getHeader()\<close> gives.
\<close>

definition loadAllTripData :: "header fetched \<Rightarrow> sel \<Rightarrow> sel" where
  "loadAllTripData hdr s =
     (let s1 = emit (ConsoleLog ''Loading all trip data from PMTiles...'') s;
          s2 = set_text ''statTrips'' (TextNum (length_num (tripLayers s1))) s1;
          originalCenter = view_center s2;
          originalZoom = view_zoom s2
      in case hdr of
           Failed \<Rightarrow>
             set_text ''statTrips'' (TextNum (length_num (tripLayers s2)))
               (emit (ConsoleError ''Error loading trip data:'') s2)
         | Parsed h \<Rightarrow>
             (let center = (js_div (js_add (minLon h) (maxLon h)) (Fin 2),
                            js_div (js_add (minLat h) (maxLat h)) (Fin 2));
                  s3 = jumpTo center (Fin 10) s2
              in s3\<lparr>stats_timer := Some (originalCenter, originalZoom)\<rparr>))"

text \<open>
  The loop over the trip layers in the timeout of \<open>loadAllTripData\<close>: it stores the totals
  of each layer and adds them up. \<open>rendered\<close> gives the features of a layer that are
  rendered when the timeout runs.
\<close>

definition collect_step ::
  "(string \<Rightarrow> props list) \<Rightarrow> string \<Rightarrow> sel \<times> jsnum \<times> jsnum \<Rightarrow> sel \<times> jsnum \<times> jsnum" where
  "collect_step rendered layerId =
     (\<lambda>(t, totalDistance, totalTime).
        case sum_features (rendered layerId) of (tripDistance, tripTime) \<Rightarrow>
          (emit (ConsoleLog ''trip totals'')
             (t\<lparr>allTripData := (allTripData t)(layerId \<mapsto> (tripDistance, tripTime))\<rparr>),
           js_add totalDistance tripDistance, js_add totalTime tripTime))"

definition collect_trip_data ::
  "(string \<Rightarrow> props list) \<Rightarrow> sel \<Rightarrow> sel \<times> jsnum \<times> jsnum" where
  "collect_trip_data rendered s = fold (collect_step rendered) (tripLayers s) (s, Fin 0, Fin 0)"

definition show_summary :: "summary_stats \<Rightarrow> sel \<Rightarrow> sel" where
  "show_summary st s =
     set_text ''statTotalTime'' (TextStr (totalTimeFormatted st))
       (set_text ''statAvgSpeed'' (TextStr (summary_avgSpeed st @ '' km/h''))
          (set_text ''statDistance'' (TextStr (totalDistanceKm st @ '' km'')) s))"

definition on_stats_timeout ::
  "(rat \<Rightarrow> string) \<Rightarrow> (string \<Rightarrow> props list) \<Rightarrow> (jsnum \<times> jsnum) \<times> jsnum \<Rightarrow> sel \<Rightarrow> sel" where
  "on_stats_timeout rt rendered saved s =
     (let s1 = emit (ConsoleLog ''Calculating stats from zoomed out view...'') s
      in case collect_trip_data rendered s1 of (s2, totalDistance, totalTime) \<Rightarrow>
           (let s3 = emit (ConsoleLog ''Total:'') s2;
                s4 = show_summary (total_stats rt totalDistance totalTime) s3
            in jumpTo (fst saved) (snd saved) s4))"

text \<open>\<open>calculateAllTripStats\<close>, which nothing calls, and its timeout.\<close>

definition calculateAllTripStats :: "sel \<Rightarrow> sel" where
  "calculateAllTripStats s =
     (let s1 = emit (ConsoleLog ''Calculating stats for all trips...'') s;
          originalCenter = view_center s1;
          originalZoom = view_zoom s1;
          s2 = setZoom (Fin 11) s1
      in s2\<lparr>calc_timer := Some (originalCenter, originalZoom)\<rparr>)"

definition count_step ::
  "(string \<Rightarrow> props list) \<Rightarrow> string \<Rightarrow> sel \<times> jsnum \<times> jsnum \<Rightarrow> sel \<times> jsnum \<times> jsnum" where
  "count_step rendered layerId =
     (\<lambda>(t, totalDistance, totalTime).
        case sum_features (rendered layerId) of (tripDistance, tripTime) \<Rightarrow>
          if js_gt tripDistance (Fin 0) \<or> js_gt tripTime (Fin 0)
          then (emit (ConsoleLog ''trip totals'') t,
                js_add totalDistance tripDistance, js_add totalTime tripTime)
          else (t, totalDistance, totalTime))"

definition count_trip_data ::
  "(string \<Rightarrow> props list) \<Rightarrow> sel \<Rightarrow> sel \<times> jsnum \<times> jsnum" where
  "count_trip_data rendered s = fold (count_step rendered) (tripLayers s) (s, Fin 0, Fin 0)"

definition on_calc_timeout ::
  "(rat \<Rightarrow> string) \<Rightarrow> (string \<Rightarrow> props list) \<Rightarrow> (jsnum \<times> jsnum) \<times> jsnum \<Rightarrow> sel \<Rightarrow> sel" where
  "on_calc_timeout rt rendered saved s =
     (case count_trip_data rendered s of (s2, totalDistance, totalTime) \<Rightarrow>
        (let s3 = emit (ConsoleLog ''Total:'') s2;
             s4 = set_text ''statTrips'' (TextNum (length_num (tripLayers s3))) s3;
             s5 = show_summary (total_stats rt totalDistance totalTime) s4;
             s6 = setZoom (snd saved) (setCenter (fst saved) s5)
         in s6\<lparr>tripStatsCalculated := True\<rparr>))"

text \<open>The statistics routine of the viewer with trip selection, which nothing calls.\<close>

definition updateStats_sel :: "sel \<Rightarrow> sel" where
  "updateStats_sel s = set_text ''statTrips'' (TextNum (length_num (tripLayers s))) s"

subsection \<open>Loading and user input\<close>

text \<open>
  The load listener. \<open>meta\<close> is what \<open>p.getMetadata()\<close> gives; metadata without
  \<open>vector_layers\<close> declares no layer. \<open>loadAllTripData\<close> is called without \<open>await\<close>, so
  its own \<open>try\<close> handles the header and the listener's \<open>catch\<close> does not see it.
\<close>

definition load_trips_sel ::
  "config \<Rightarrow> string \<Rightarrow> bool \<Rightarrow> tilejson fetched \<Rightarrow> header fetched \<Rightarrow> sel \<Rightarrow> sel outcome" where
  "load_trips_sel cfg origin speedColorsCheckbox_present meta hdr s =
     (let s1 = emit (ConsoleLog ''Loading bike trips from:'') s;
          pmtilesUrl = origin @ PMTILES_URL cfg
      in case meta of
           Failed \<Rightarrow> Thrown s1
         | Parsed metadata \<Rightarrow>
             (let s2 = emit (ConsoleLog ''PMTiles loaded:'') s1;
                  ids = (case vector_layers metadata of None \<Rightarrow> [] | Some ls \<Rightarrow> ls);
                  s3 = s2\<lparr>tripLayers := ids\<rparr>;
                  s4 = emit (ConsoleLog ''Found trips'') s3
              in case addSource ''trips'' (VectorSource (''pmtiles://'' @ pmtilesUrl)) s4 of
                   Thrown s5 \<Rightarrow> Thrown s5
                 | Done s5 \<Rightarrow>
                     (let s6 = fold (\<lambda>layerId. addLayer layerId (sel_layer layerId))
                                 (tripLayers s5) s5;
                          s7 = emit (ConsoleLog ''All trips loaded and visible'') s6;
                          s8 = setZoom (Fin 13)
                                 (setCenter (Fin (49041 / 10000), Fin (523676 / 10000)) s7);
                          s9 = setupClickHandlers (setupControls speedColorsCheckbox_present s8)
                      in Done (loadAllTripData hdr s9))))"

definition on_load_sel ::
  "config \<Rightarrow> string \<Rightarrow> bool \<Rightarrow> tilejson fetched \<Rightarrow> header fetched \<Rightarrow> sel \<Rightarrow> sel" where
  "on_load_sel cfg origin speedColorsCheckbox_present meta hdr s =
     (case load_trips_sel cfg origin speedColorsCheckbox_present meta hdr
             (emit (ConsoleLog ''Map loaded'') s) of
        Done t \<Rightarrow> t
      | Thrown t \<Rightarrow> emit (ConsoleError ''Error loading trips:'') t)"

datatype sel_event =
    SpeedColorsChange bool
  | SelSpeedModeChange string
  | MapClick click
  | StatsTimeout "string \<Rightarrow> props list"
  | TripMouseEnter string
  | TripMouseLeave string

fun dispatch_sel :: "(rat \<Rightarrow> string) \<Rightarrow> sel_event \<Rightarrow> sel \<Rightarrow> sel" where
  "dispatch_sel rt (SpeedColorsChange b) s =
     (let s1 = set_checked ''speedColorsCheckbox'' b s
      in if controls s1 then on_speedColors_change b s1 else s1)"
| "dispatch_sel rt (SelSpeedModeChange v) s =
     (let s1 = s\<lparr>radio_checked := Some v\<rparr>
      in if controls s1 then on_speedMode_change_sel v s1 else s1)"
| "dispatch_sel rt (MapClick e) s = (if click_handlers s then map_click rt e s else s)"
| "dispatch_sel rt (StatsTimeout rendered) s =
     (case stats_timer s of
        None \<Rightarrow> s
      | Some saved \<Rightarrow> on_stats_timeout rt rendered saved (s\<lparr>stats_timer := None\<rparr>))"
| "dispatch_sel rt (TripMouseEnter layerId) s =
     (if click_handlers s \<and> layerId \<in> set (tripLayers s) then s\<lparr>cursor := ''pointer''\<rparr> else s)"
| "dispatch_sel rt (TripMouseLeave layerId) s =
     (if click_handlers s \<and> layerId \<in> set (tripLayers s) then s\<lparr>cursor := []\<rparr> else s)"

definition blank_sel :: sel where
  "blank_sel =
     \<lparr>tripLayers = [], speedMode = [], accessToken = None, sources = Map.empty,
      layers = Map.empty, cursor = [], popups = [], trace = [], el_text = Map.empty,
      el_display = Map.empty, el_checked = (\<lambda>_. False), el_value = (\<lambda>_. []),
      el_options = [], radio_checked = Some ''gradient'', showSpeedColors = False,
      selectedTrip = None, tripStatsCalculated = False, allTripData = Map.empty,
      view_center = (Fin 0, Fin 0), view_zoom = Fin 0, controls = False,
      click_handlers = False, stats_timer = None, calc_timer = None\<rparr>"

section \<open>Notions for the properties\<close>

text \<open>The opacity and the width of a layer's line.\<close>

definition line_style :: "'a viewer_scheme \<Rightarrow> string \<Rightarrow> paintval option \<times> paintval option" where
  "line_style s layerId =
     (case layers s layerId of
        None \<Rightarrow> (None, None)
      | Some l \<Rightarrow> (l_paint l ''line-opacity'', l_paint l ''line-width''))"

text \<open>The two paint calls of a restyling loop, and the loops' bodies, named for the proofs.\<close>

definition restyle :: "paintval \<Rightarrow> paintval \<Rightarrow> string \<Rightarrow> 'a viewer_scheme \<Rightarrow> 'a viewer_scheme" where
  "restyle w opac l t = setPaintProperty l ''line-width'' w (setPaintProperty l ''line-opacity'' opac t)"

definition hl_step :: "string \<Rightarrow> string \<Rightarrow> sel \<Rightarrow> sel" where
  "hl_step layerId l t =
     (if l = layerId then emit (ConsoleLog ''Highlighted:'') (restyle (PNum 4) (PNum 1) l t)
      else emit (ConsoleLog ''Faded:'') (restyle (PNum 2) (PNum (15 / 100)) l t))"


definition same_frame :: "sel \<Rightarrow> sel \<Rightarrow> bool" where
  "same_frame s t \<longleftrightarrow>
     tripLayers t = tripLayers s \<and> dom (layers t) = dom (layers s)
     \<and> click_handlers t = click_handlers s"

definition click_step :: "(rat \<Rightarrow> string) \<Rightarrow> click \<Rightarrow> string \<Rightarrow> sel \<times> bool \<Rightarrow> sel \<times> bool" where
  "click_step rt e layerId =
     (\<lambda>(t, prevented).
        case (layers t layerId, c_hits e layerId) of
          (Some l, props # others) \<Rightarrow> (on_layer_click rt layerId props e t, True)
        | _ \<Rightarrow> (t, prevented))"

definition no_rt :: "rat \<Rightarrow> string" where
  "no_rt x = []"

definition click_on :: "string \<Rightarrow> click" where
  "click_on layerId =
     \<lparr>c_lngLat = (49 / 10, 5237 / 100),
      c_hits = (\<lambda>l. if l = layerId then [Map.empty] else []),
      c_rendered = (\<lambda>l. [])\<rparr>"

text \<open>A loaded viewer with two trips, and a click on one layer.\<close>

definition two_trips :: sel where
  "two_trips =
     on_load_sel local_config [] True (Parsed \<lparr>vector_layers = Some [''trip_a'', ''trip_b'']\<rparr>)
       Failed (startup_sel local_config blank_sel)"

text \<open>The trip-layer identifiers and the layers of the map are those of an earlier state.\<close>

definition kept :: "'a viewer_scheme \<Rightarrow> 'a viewer_scheme \<Rightarrow> bool" where
  "kept s t \<longleftrightarrow> tripLayers t = tripLayers s \<and> dom (layers t) = dom (layers s)"

text \<open>The state in which a \<open>try\<close> body ends, normally or not.\<close>

definition final :: "'a outcome \<Rightarrow> 'a" where
  "final r = (case r of Done t \<Rightarrow> t | Thrown t \<Rightarrow> t)"

text \<open>The value of a paint property, of a layout property and the filter of a layer.\<close>

definition paint_of :: "'a viewer_scheme \<Rightarrow> string \<Rightarrow> string \<Rightarrow> paintval option" where
  "paint_of s layerId name = (case layers s layerId of None \<Rightarrow> None | Some l \<Rightarrow> l_paint l name)"

definition layout_of :: "'a viewer_scheme \<Rightarrow> string \<Rightarrow> string \<Rightarrow> string option" where
  "layout_of s layerId name = (case layers s layerId of None \<Rightarrow> None | Some l \<Rightarrow> l_layout l name)"

definition filter_of :: "'a viewer_scheme \<Rightarrow> string \<Rightarrow> fexpr option" where
  "filter_of s layerId = (case layers s layerId of None \<Rightarrow> None | Some l \<Rightarrow> l_filter l)"

text \<open>What a change of the mode leaves alone, and what it sets.\<close>

definition agg_kept :: "app \<Rightarrow> app \<Rightarrow> bool" where
  "agg_kept s t \<longleftrightarrow>
     aggregated_controls t = aggregated_controls s \<and> dom (layers t) = dom (layers s)
     \<and> radio_checked t = radio_checked s"

definition loaded :: app where
  "loaded =
     on_load local_config (Parsed \<lparr>vector_layers = Some [''trip_a'', ''trip_b'']\<rparr>)
       (Parsed \<lparr>features = Some []\<rparr>) (startup local_config blank)"

text \<open>The text of an integer, as the value of a range input has it.\<close>

definition int_text :: "int \<Rightarrow> string" where
  "int_text k = (if k < 0 then CHR ''-'' # dec (nat (- k)) else dec (nat k))"

subsection \<open>The ride of the example\<close>

text \<open>One feature that carries the totals of the example, as rendered and as clicked.\<close>

definition ride :: props where
  "ride = [''gps_distance_m'' \<mapsto> Num 12345, ''time_diff_s'' \<mapsto> Num 1830]"

definition ride_rendered :: "string \<Rightarrow> props list" where
  "ride_rendered l = (if l = ''trip_a'' then [ride] else [])"

definition ride_click :: click where
  "ride_click =
     \<lparr>c_lngLat = (49 / 10, 5237 / 100),
      c_hits = (\<lambda>l. if l = ''trip_a'' then [ride] else []),
      c_rendered = ride_rendered\<rparr>"

section \<open>Properties of the colouring policy\<close>

lemma parse_DC2626: "parse_color ''#DC2626'' = Some (220, 38, 38)"
  by (simp add: hexpair_def hexval_def)

lemma parse_808080: "parse_color ''#808080'' = Some (128, 128, 128)"
  by (simp add: hexpair_def hexval_def)

lemma speed_input_cases:
  assumes "no_speed (p k)"
  shows "eval_n p (ToNumber (Coalesce [Get k, Lit (Num 0)])) \<le> 0"
  using assms by (auto simp: no_speed_def split: option.splits jsval.splits)

lemma speed_input_zero:
  "eval_n (p(k \<mapsto> Num 0)) (ToNumber (Coalesce [Get k, Lit (Num 0)])) = 0"
  by simp

lemma interpolate_at_first_stop:
  "v \<le> s0 \<Longrightarrow> interpolate_linear v ((s0, c0) # rest) = parse_color c0"
  by (cases rest) auto

lemma step_below_first_stop:
  "v < s \<Longrightarrow> step_output v d ((s, c) # rest) = d"
  by simp

lemma speed_policy_at:
  assumes "eval_n p (ToNumber (Coalesce [Get k, Lit (Num 0)])) \<le> 0"
  shows "eval_c p (Interpolate (ToNumber (Coalesce [Get k, Lit (Num 0)])) ((0, c0) # rest))
           = parse_color c0"
    and "0 < s \<Longrightarrow>
         eval_c p (Step (ToNumber (Coalesce [Get k, Lit (Num 0)])) d ((s, c) # rest))
           = parse_color d"
proof -
  let ?v = "eval_n p (ToNumber (Coalesce [Get k, Lit (Num 0)]))"
  show "eval_c p (Interpolate (ToNumber (Coalesce [Get k, Lit (Num 0)])) ((0, c0) # rest))
           = parse_color c0"
    using assms interpolate_at_first_stop [of ?v 0 c0 rest] by (simp del: eval_n.simps)
  assume "0 < s"
  with assms have "?v < s" by linarith
  then show "eval_c p (Step (ToNumber (Coalesce [Get k, Lit (Num 0)])) d ((s, c) # rest))
           = parse_color d"
    using step_below_first_stop [of ?v s d c rest] by (simp del: eval_n.simps)
qed

lemma speed_policy_red:
  assumes "eval_n p (ToNumber (Coalesce [Get ''Speed'', Lit (Num 0)])) \<le> 0"
  shows "eval_c p (getSpeedColorExpression mode) = Some (220, 38, 38)"
  using speed_policy_at [OF assms] parse_DC2626
  by (simp add: getSpeedColorExpression_def del: eval_n.simps eval_c.simps parse_color.simps)

lemma aggregated_policy_red:
  assumes "eval_n p (ToNumber (Coalesce [Get ''avg_speed'', Lit (Num 0)])) \<le> 0"
  shows "eval_c p (getAggregatedSpeedColorExpression mode) = Some (220, 38, 38)"
  using speed_policy_at [OF assms] parse_DC2626
  by (simp add: getAggregatedSpeedColorExpression_def
      del: eval_n.simps eval_c.simps parse_color.simps)

lemma part0_policy_grey:
  assumes "eval_n p (ToNumber (Coalesce [Get ''Speed'', Lit (Num 0)])) \<le> 0"
  shows "eval_c p (getSpeedColorExpression_part0 mode) = Some (128, 128, 128)"
  using speed_policy_at [OF assms] parse_808080
  by (simp add: getSpeedColorExpression_part0_def
      del: eval_n.simps eval_c.simps parse_color.simps)

lemma sel_policy_grey:
  assumes "eval_n p (ToNumber (Coalesce [Get ''Speed'', Lit (Num 0)])) \<le> 0"
  shows "eval_c p (getSpeedColorExpression_sel mode) = Some (128, 128, 128)"
  using speed_policy_at [OF assms] parse_808080
  by (simp add: getSpeedColorExpression_sel_def
      del: eval_n.simps eval_c.simps parse_color.simps)

text \<open>
  Claim C3. A trip feature whose \<open>Speed\<close> is absent, \<open>null\<close> or negative gets, from every
  trip-level colouring function and in every mode, the colour the same feature gets with
  \<open>Speed = 0\<close>; an aggregated feature whose \<open>avg_speed\<close> is absent, \<open>null\<close> or negative
  gets the colour it gets with \<open>avg_speed = 0\<close>. That colour exists: it is the first
  colour of the table.
\<close>

theorem missing_or_negative_speed_colored_as_zero:
  assumes "no_speed (p ''Speed'')" and "no_speed (q ''avg_speed'')"
  shows "eval_c p (getSpeedColorExpression mode)
           = eval_c (p(''Speed'' \<mapsto> Num 0)) (getSpeedColorExpression mode)
       \<and> eval_c q (getAggregatedSpeedColorExpression mode)
           = eval_c (q(''avg_speed'' \<mapsto> Num 0)) (getAggregatedSpeedColorExpression mode)
       \<and> eval_c p (getSpeedColorExpression_part0 mode)
           = eval_c (p(''Speed'' \<mapsto> Num 0)) (getSpeedColorExpression_part0 mode)
       \<and> eval_c p (getSpeedColorExpression_sel mode)
           = eval_c (p(''Speed'' \<mapsto> Num 0)) (getSpeedColorExpression_sel mode)
       \<and> eval_c (p(''Speed'' \<mapsto> Num 0)) (getSpeedColorExpression mode) = Some (220, 38, 38)
       \<and> eval_c (q(''avg_speed'' \<mapsto> Num 0)) (getAggregatedSpeedColorExpression mode)
           = Some (220, 38, 38)
       \<and> eval_c (p(''Speed'' \<mapsto> Num 0)) (getSpeedColorExpression_part0 mode)
           = Some (128, 128, 128)
       \<and> eval_c (p(''Speed'' \<mapsto> Num 0)) (getSpeedColorExpression_sel mode)
           = Some (128, 128, 128)"
proof -
  have p: "eval_n p (ToNumber (Coalesce [Get ''Speed'', Lit (Num 0)])) \<le> 0"
    using assms(1) by (rule speed_input_cases)
  have q: "eval_n q (ToNumber (Coalesce [Get ''avg_speed'', Lit (Num 0)])) \<le> 0"
    using assms(2) by (rule speed_input_cases)
  have p0: "eval_n (p(''Speed'' \<mapsto> Num 0)) (ToNumber (Coalesce [Get ''Speed'', Lit (Num 0)])) \<le> 0"
    by simp
  have q0: "eval_n (q(''avg_speed'' \<mapsto> Num 0))
              (ToNumber (Coalesce [Get ''avg_speed'', Lit (Num 0)])) \<le> 0"
    by simp
  show ?thesis
    unfolding speed_policy_red [OF p] speed_policy_red [OF p0]
      aggregated_policy_red [OF q] aggregated_policy_red [OF q0]
      part0_policy_grey [OF p] part0_policy_grey [OF p0]
      sel_policy_grey [OF p] sel_policy_grey [OF p0]
    by simp
qed

theorem missing_or_negative_speed_witness:
  "eval_c [''Speed'' \<mapsto> Num (- 3)] (getSpeedColorExpression ''step'')
     = eval_c [''Speed'' \<mapsto> Num 0] (getSpeedColorExpression ''step'')
   \<and> eval_c Map.empty (getAggregatedSpeedColorExpression ''gradient'')
     = eval_c [''avg_speed'' \<mapsto> Num 0] (getAggregatedSpeedColorExpression ''gradient'')"
  using missing_or_negative_speed_colored_as_zero
    [of "[''Speed'' \<mapsto> Num (- 3)]" Map.empty "''step''"]
    missing_or_negative_speed_colored_as_zero
    [of "[''Speed'' \<mapsto> Num (- 3)]" Map.empty "''gradient''"]
  by (simp add: no_speed_def)

section \<open>Selecting a trip\<close>

lemma fold_inv:
  assumes "\<And>x t. Q t \<Longrightarrow> Q (f x t)" and "Q s"
  shows "Q (fold f xs s)"
  using assms(2) by (induction xs arbitrary: s) (auto intro: assms(1))

lemma emit_simps [simp]:
  "trace (emit e s) = trace s @ [e]"
  "tripLayers (emit e s) = tripLayers s" "layers (emit e s) = layers s"
  "sources (emit e s) = sources s" "speedMode (emit e s) = speedMode s"
  "radio_checked (emit e s) = radio_checked s" "el_checked (emit e s) = el_checked s"
  "el_value (emit e s) = el_value s"
  by (simp_all add: emit_def)

lemma emit_sel [simp]:
  "selectedTrip (emit e s) = selectedTrip s" "click_handlers (emit e s) = click_handlers s"
  "allTripData (emit e s) = allTripData s"
  by (simp_all add: emit_def)

lemma line_style_emit [simp]: "line_style (emit e s) i = line_style s i"
  by (simp add: line_style_def)

lemma setPaintProperty_simps [simp]:
  "tripLayers (setPaintProperty i n v s) = tripLayers s"
  "dom (layers (setPaintProperty i n v s)) = dom (layers s)"
  by (auto simp: setPaintProperty_def Let_def map_error_def split: option.splits)

lemma setPaintProperty_sel [simp]:
  "selectedTrip (setPaintProperty i n v s) = selectedTrip s"
  "click_handlers (setPaintProperty i n v s) = click_handlers s"
  "allTripData (setPaintProperty i n v s) = allTripData s"
  by (auto simp: setPaintProperty_def Let_def map_error_def emit_def split: option.splits)

lemma layers_setPaintProperty:
  "layers (setPaintProperty i n v s) j =
     (if j = i then map_option (\<lambda>l. l\<lparr>l_paint := (l_paint l)(n \<mapsto> v)\<rparr>) (layers s i)
      else layers s j)"
  by (auto simp: setPaintProperty_def Let_def map_error_def split: option.splits)

lemma line_style_restyle:
  "line_style (restyle w opac l t) j =
     (if j = l \<and> l \<in> dom (layers t) then (Some opac, Some w) else line_style t j)"
  by (auto simp: restyle_def line_style_def layers_setPaintProperty split: option.splits)

lemma restyle_frame [simp]:
  "tripLayers (restyle w opac l t) = tripLayers t"
  "dom (layers (restyle w opac l t)) = dom (layers t)"
  by (simp_all add: restyle_def)

lemma restyle_sel [simp]:
  "selectedTrip (restyle w opac l t) = selectedTrip t"
  "click_handlers (restyle w opac l t) = click_handlers t"
  "allTripData (restyle w opac l t) = allTripData t"
  by (simp_all add: restyle_def)

lemma highlight_alt: "highlight layerId s = fold (hl_step layerId) (tripLayers s) s"
  unfolding highlight_def hl_step_def restyle_def ..

lemma hl_step_frame [simp]:
  "tripLayers (hl_step b l t) = tripLayers t"
  "dom (layers (hl_step b l t)) = dom (layers t)"
  "selectedTrip (hl_step b l t) = selectedTrip t"
  "click_handlers (hl_step b l t) = click_handlers t"
  "allTripData (hl_step b l t) = allTripData t"
  by (simp_all add: hl_step_def)

lemma line_style_hl_step:
  "line_style (hl_step b l t) j =
     (if j = l \<and> l \<in> dom (layers t)
      then (if l = b then (Some (PNum 1), Some (PNum 4)) else (Some (PNum (15 / 100)), Some (PNum 2)))
      else line_style t j)"
  by (simp add: hl_step_def line_style_restyle)

lemma fold_hl_step_frame [simp]:
  "tripLayers (fold (hl_step b) xs t) = tripLayers t"
  "dom (layers (fold (hl_step b) xs t)) = dom (layers t)"
  "selectedTrip (fold (hl_step b) xs t) = selectedTrip t"
  "click_handlers (fold (hl_step b) xs t) = click_handlers t"
  "allTripData (fold (hl_step b) xs t) = allTripData t"
  by (induction xs arbitrary: t) simp_all

lemma line_style_fold_hl_step:
  "line_style (fold (hl_step b) xs t) j =
     (if j \<in> set xs \<and> j \<in> dom (layers t)
      then (if j = b then (Some (PNum 1), Some (PNum 4)) else (Some (PNum (15 / 100)), Some (PNum 2)))
      else line_style t j)"
proof (induction xs arbitrary: t)
  case Nil
  then show ?case by simp
next
  case (Cons x xs)
  show ?case
    by (auto simp: Cons.IH line_style_hl_step)
qed

lemma set_text_simps [simp]:
  "tripLayers (set_text el x s) = tripLayers s" "layers (set_text el x s) = layers s"
  "trace (set_text el x s) = trace s"
  by (simp_all add: set_text_def)

lemma set_display_simps [simp]:
  "tripLayers (set_display el x s) = tripLayers s" "layers (set_display el x s) = layers s"
  "trace (set_display el x s) = trace s"
  by (simp_all add: set_display_def)

lemma show_popup_simps [simp]:
  "tripLayers (show_popup p s) = tripLayers s" "layers (show_popup p s) = layers s"
  "trace (show_popup p s) = trace s"
  by (simp_all add: show_popup_def)

lemma sel_misc [simp]:
  "selectedTrip (set_text el x s) = selectedTrip s"
  "selectedTrip (set_display el d s) = selectedTrip s"
  "selectedTrip (show_popup p s) = selectedTrip s"
  "click_handlers (set_text el x s) = click_handlers s"
  "click_handlers (set_display el d s) = click_handlers s"
  "click_handlers (show_popup p s) = click_handlers s"
  "allTripData (set_text el x s) = allTripData s"
  "allTripData (set_display el d s) = allTripData s"
  by (simp_all add: set_text_def set_display_def show_popup_def)

lemma line_style_misc [simp]:
  "line_style (set_text el x s) i = line_style s i"
  "line_style (set_display el d s) i = line_style s i"
  "line_style (show_popup p s) i = line_style s i"
  by (simp_all add: line_style_def)

lemma line_style_selectedTrip [simp]:
  "line_style (s\<lparr>selectedTrip := x\<rparr>) i = line_style s i"
  by (simp add: line_style_def)

text \<open>What one layer listener leaves behind.\<close>

lemma on_layer_click_effect:
  "tripLayers (on_layer_click rt b props e s) = tripLayers s"
  "dom (layers (on_layer_click rt b props e s)) = dom (layers s)"
  "selectedTrip (on_layer_click rt b props e s) = Some b"
  "click_handlers (on_layer_click rt b props e s) = click_handlers s"
  "line_style (on_layer_click rt b props e s) j =
     (if j \<in> set (tripLayers s) \<and> j \<in> dom (layers s)
      then (if j = b then (Some (PNum 1), Some (PNum 4)) else (Some (PNum (15 / 100)), Some (PNum 2)))
      else line_style s j)"
  by (simp_all add: on_layer_click_def Let_def highlight_alt line_style_fold_hl_step)

lemma map_click_alt:
  "map_click rt e s =
     (case fold (click_step rt e) (tripLayers s) (s, False) of
        (t, prevented) \<Rightarrow> on_background_click prevented t)"
  unfolding map_click_def click_step_def ..



lemma fold_restyle_frame [simp]:
  "tripLayers (fold (restyle w opac) xs t) = tripLayers t"
  "dom (layers (fold (restyle w opac) xs t)) = dom (layers t)"
  "selectedTrip (fold (restyle w opac) xs t) = selectedTrip t"
  "click_handlers (fold (restyle w opac) xs t) = click_handlers t"
  by (induction xs arbitrary: t) simp_all

lemma on_background_click_alt:
  "on_background_click defaultPrevented s =
     (let s1 = emit (ConsoleLog ''Map background clicked, defaultPrevented:'') s
      in if \<not> defaultPrevented \<and> selectedTrip s1 \<noteq> None \<and> selectedTrip s1 \<noteq> Some [] then
           set_display ''selectedTripRow'' ''none''
             (fold (restyle (PNum 3) (PNum (7 / 10))) (tripLayers s)
                ((emit (ConsoleLog ''Resetting from background click'') s1)\<lparr>selectedTrip := None\<rparr>))
         else s1)"
  unfolding on_background_click_def restyle_def Let_def by simp

lemma on_background_click_frame:
  "tripLayers (on_background_click p s) = tripLayers s"
  "dom (layers (on_background_click p s)) = dom (layers s)"
  "click_handlers (on_background_click p s) = click_handlers s"
  by (simp_all add: on_background_click_alt Let_def)


lemma fold_click_step_frame:
  assumes "same_frame s t"
  shows "same_frame s (fst (fold (click_step rt e) xs (t, prevented)))"
  using assms
proof (induction xs arbitrary: t prevented)
  case Nil
  then show ?case by simp
next
  case (Cons x xs)
  have "same_frame s (fst (click_step rt e x (t, prevented)))"
    using Cons.prems
    by (auto simp: click_step_def same_frame_def on_layer_click_effect
        split: option.splits list.splits)
  then show ?case
    using Cons.IH [of "fst (click_step rt e x (t, prevented))" "snd (click_step rt e x (t, prevented))"]
    by simp
qed

lemma map_click_frame: "same_frame s (map_click rt e s)"
proof -
  obtain t p where f: "fold (click_step rt e) (tripLayers s) (s, False) = (t, p)"
    by (cases "fold (click_step rt e) (tripLayers s) (s, False)")
  have "same_frame s (fst (fold (click_step rt e) (tripLayers s) (s, False)))"
    by (rule fold_click_step_frame) (simp add: same_frame_def)
  then have "same_frame s t"
    by (simp add: f)
  then show ?thesis
    by (simp add: map_click_alt f same_frame_def on_background_click_frame)
qed




lemma two_trips_facts:
  "click_handlers two_trips" "tripLayers two_trips = [''trip_a'', ''trip_b'']"
  "dom (layers two_trips) = {''trip_a'', ''trip_b''}" "selectedTrip two_trips = None"
  "line_style two_trips ''trip_a'' = (Some (PNum (7 / 10)), Some (PNum 3))"
  by (auto simp: two_trips_def on_load_sel_def load_trips_sel_def startup_sel_def blank_sel_def
      Let_def addSource_def addLayer_def emit_def setCenter_def setZoom_def setupControls_def
      setupClickHandlers_def loadAllTripData_def set_text_def map_error_def sel_layer_def
      local_config_def line_style_def)

lemma click_on_simps [simp]:
  "c_hits (click_on l) j = (if j = l then [Map.empty] else [])"
  by (simp add: click_on_def)



text \<open>
  Claim C9. A click that has no trip feature under the pointer, made while no trip is
  selected, restyles nothing: where the click listeners are registered the only effect is
  the console entry of the map listener, so the trace gains no call on the map and every
  layer, its opacity and width included, and all other state stay as they were.
\<close>

theorem background_click_without_selection_is_noop:
  assumes "selectedTrip s = None"
    and "\<forall>j \<in> set (tripLayers s). c_hits e j = []"
  shows "dispatch_sel rt (MapClick e) s =
           (if click_handlers s
            then s\<lparr>trace := trace s @ [ConsoleLog ''Map background clicked, defaultPrevented:'']\<rparr>
            else s)"
proof -
  have "fold (click_step rt e) xs (s, False) = (s, False)"
    if "\<forall>j \<in> set xs. c_hits e j = []" for xs
    using that by (induction xs) (auto simp: click_step_def split: option.splits list.splits)
  then have "fold (click_step rt e) (tripLayers s) (s, False) = (s, False)"
    using assms(2) by blast
  then show ?thesis
    using assms(1) by (simp add: map_click_alt on_background_click_def emit_def)
qed

theorem background_click_witness:
  "dispatch_sel no_rt (MapClick (click_on ''elsewhere'')) two_trips =
     two_trips\<lparr>trace := trace two_trips
                   @ [ConsoleLog ''Map background clicked, defaultPrevented:'']\<rparr>"
  using background_click_without_selection_is_noop [of two_trips "click_on ''elsewhere''" no_rt]
  by (simp add: two_trips_facts del: dispatch_sel.simps)

lemma line_style_fold_restyle:
  "line_style (fold (restyle w opac) xs t) j =
     (if j \<in> set xs \<and> j \<in> dom (layers t) then (Some opac, Some w) else line_style t j)"
proof (induction xs arbitrary: t)
  case Nil
  then show ?case by simp
next
  case (Cons x xs)
  show ?case
    by (auto simp: Cons.IH line_style_restyle)
qed

text \<open>
  A click on the background while a trip with a non-empty layer id is selected gives
  every trip layer on the map its default style again and clears the selection.
\<close>

lemma background_click_restores_default:
  assumes "selectedTrip s = Some b" and "b \<noteq> []"
    and "j \<in> set (tripLayers s) \<inter> dom (layers s)"
  shows "line_style (on_background_click False s) j = (Some (PNum (7 / 10)), Some (PNum 3))"
    and "selectedTrip (on_background_click False s) = None"
  using assms by (simp_all add: on_background_click_alt Let_def line_style_fold_restyle)

section \<open>The start of the script\<close>




text \<open>
  With a \<open>config.js\<close> written by the generator script from an environment that has no
  \<open>MAPBOX_TOKEN\<close>, the token is the text \<open>undefined\<close>, and the check of \<open>src/app.js\<close>
  does not see that the credential is missing.
\<close>

lemma generated_config_hides_missing_token:
  "trace (startup (generate_config None) pg) = trace pg @
     [ConsoleLog ''Starting bike sensor visualization...'', ConsoleLog ''Config:'',
      MapCall (NewMap ''mapbox://styles/mapbox/dark-v11'' (49 / 10, 5237 / 100) 11)]"
  by (simp add: startup_def generate_config_def Let_def emit_def)

section \<open>Trip statistics\<close>

lemma dec_digit: "n < 10 \<Longrightarrow> dec n = [char_of (48 + n)]"
  by (simp add: dec.simps)

lemma char_of_48: "char_of (48 :: nat) = CHR ''0''"
  by code_simp

lemma js_toString_zero: "js_toString rt (Fin 0) = ''0''"
  by (simp add: js_toString_def dec_digit char_of_48)

text \<open>
  Claim C10. The average speed divides only when the total time is greater than 0. With
  a total time of 0 no division is evaluated, so none by zero, and the popup and both
  summaries read 0.
\<close>

theorem average_speed_divides_only_for_positive_time:
  "(snd (avgSpeed rt totalDistance totalTime) \<noteq> [] \<longrightarrow> js_gt totalTime (Fin 0))
   \<and> avgSpeed rt totalDistance (Fin 0) = (''0'', [])
   \<and> popup_avgSpeed (click_stats rt totalDistance (Fin 0)) = ''0''
   \<and> summary_avgSpeed (total_stats rt totalDistance (Fin 0)) = ''0''"
  by (simp add: avgSpeed_def click_stats_def total_stats_def Let_def js_toString_zero)

theorem average_speed_witness:
  "snd (avgSpeed no_rt (Fin 12345) (Fin 1830)) \<noteq> [] \<and> js_gt (Fin 1830) (Fin 0)"
  using average_speed_divides_only_for_positive_time [of no_rt "Fin 12345" "Fin 1830"]
  by (simp add: avgSpeed_def div_rec_def)

lemma popups_simps [simp]:
  "popups (emit ev s) = popups s"
  "popups (set_text el x s) = popups s"
  "popups (set_display el d s) = popups s"
  "popups (setPaintProperty i n v s) = popups s"
  "popups (show_popup p s) = popups s @ [p]"
  by (auto simp: emit_def set_text_def set_display_def setPaintProperty_def Let_def
      map_error_def show_popup_def split: option.splits)

lemma popups_hl_step [simp]: "popups (hl_step b l t) = popups t"
  by (simp add: hl_step_def restyle_def)

lemma popups_fold_hl_step [simp]: "popups (fold (hl_step b) xs t) = popups t"
  by (induction xs arbitrary: t) simp_all

lemma on_layer_click_popup:
  "popups (on_layer_click rt layerId props e s) = popups s @
     [\<lparr>p_lngLat = c_lngLat e, p_title = trip_name layerId,
       p_fields =
         (let totals = (case cached_totals (allTripData s) layerId of
                          Some cached \<Rightarrow> cached
                        | None \<Rightarrow> sum_features (c_rendered e layerId));
              st = click_stats rt (fst totals) (snd totals)
          in [(''Speed at point'', FProp (Some (or_zero (props ''Speed'')))),
              (''Average speed'', FText (popup_avgSpeed st)),
              (''Total distance'', FText (distanceKm st)),
              (''Duration'', FText (durationFormatted st))])\<rparr>]"
  by (simp add: on_layer_click_def Let_def highlight_alt)

lemma el_text_simps [simp]:
  "el_text (emit ev s) = el_text s"
  "el_text (set_text el x s) = (el_text s)(el \<mapsto> x)"
  "el_text (jumpTo c z t) = el_text t"
  "el_text (setCenter c t) = el_text t"
  "el_text (setZoom z t) = el_text t"
  by (simp_all add: emit_def set_text_def jumpTo_def setCenter_def setZoom_def)

lemma snd_fold_collect_step:
  "snd (fold (collect_step r) xs (t, a)) = snd (fold (collect_step r) xs (t', a))"
proof (induction xs arbitrary: t t' a)
  case Nil
  show ?case by simp
next
  case (Cons x xs)
  obtain d tt where a: "a = (d, tt)" by (cases a)
  obtain td ttt where f: "sum_features (r x) = (td, ttt)" by (cases "sum_features (r x)")
  have "\<exists>u u' b. collect_step r x (t, a) = (u, b) \<and> collect_step r x (t', a) = (u', b)"
    by (simp add: collect_step_def a f)
  then obtain u u' b where "collect_step r x (t, a) = (u, b)" "collect_step r x (t', a) = (u', b)"
    by blast
  then show ?case
    using Cons.IH [of u b u'] by simp
qed

lemma snd_fold_count_step:
  "snd (fold (count_step r) xs (t, a)) = snd (fold (count_step r) xs (t', a))"
proof (induction xs arbitrary: t t' a)
  case Nil
  show ?case by simp
next
  case (Cons x xs)
  obtain d tt where a: "a = (d, tt)" by (cases a)
  obtain td ttt where f: "sum_features (r x) = (td, ttt)" by (cases "sum_features (r x)")
  have "\<exists>u u' b. count_step r x (t, a) = (u, b) \<and> count_step r x (t', a) = (u', b)"
    by (simp add: count_step_def a f)
  then obtain u u' b where "count_step r x (t, a) = (u, b)" "count_step r x (t', a) = (u', b)"
    by blast
  then show ?case
    using Cons.IH [of u b u'] by simp
qed

lemma show_summary_text:
  "el_text (show_summary st s) =
     (el_text s)(''statDistance'' \<mapsto> TextStr (totalDistanceKm st @ '' km''),
                 ''statAvgSpeed'' \<mapsto> TextStr (summary_avgSpeed st @ '' km/h''),
                 ''statTotalTime'' \<mapsto> TextStr (totalTimeFormatted st))"
  by (simp add: show_summary_def)

lemma snd_collect_trip_data_emit:
  "snd (collect_trip_data r (emit ev s)) = snd (collect_trip_data r s)"
  unfolding collect_trip_data_def by (simp add: snd_fold_collect_step [of r _ "emit ev s" _ s])

lemma on_stats_timeout_text:
  assumes "snd (collect_trip_data r s) = (totalDistance, totalTime)"
  shows "el_text (on_stats_timeout rt r saved s) ''statDistance''
           = Some (TextStr (totalDistanceKm (total_stats rt totalDistance totalTime) @ '' km''))"
    and "el_text (on_stats_timeout rt r saved s) ''statAvgSpeed''
           = Some (TextStr (summary_avgSpeed (total_stats rt totalDistance totalTime) @ '' km/h''))"
    and "el_text (on_stats_timeout rt r saved s) ''statTotalTime''
           = Some (TextStr (totalTimeFormatted (total_stats rt totalDistance totalTime)))"
proof -
  let ?s1 = "emit (ConsoleLog ''Calculating stats from zoomed out view...'') s"
  obtain t where c: "collect_trip_data r ?s1 = (t, totalDistance, totalTime)"
    using assms snd_collect_trip_data_emit [of r "ConsoleLog ''Calculating stats from zoomed out view...''" s]
    by (cases "collect_trip_data r ?s1") auto
  show "el_text (on_stats_timeout rt r saved s) ''statDistance''
           = Some (TextStr (totalDistanceKm (total_stats rt totalDistance totalTime) @ '' km''))"
    and "el_text (on_stats_timeout rt r saved s) ''statAvgSpeed''
           = Some (TextStr (summary_avgSpeed (total_stats rt totalDistance totalTime) @ '' km/h''))"
    and "el_text (on_stats_timeout rt r saved s) ''statTotalTime''
           = Some (TextStr (totalTimeFormatted (total_stats rt totalDistance totalTime)))"
    by (simp_all add: on_stats_timeout_def Let_def c show_summary_text)
qed

lemma on_calc_timeout_text:
  assumes "snd (count_trip_data r s) = (totalDistance, totalTime)"
  shows "el_text (on_calc_timeout rt r saved s) ''statDistance''
           = Some (TextStr (totalDistanceKm (total_stats rt totalDistance totalTime) @ '' km''))"
    and "el_text (on_calc_timeout rt r saved s) ''statAvgSpeed''
           = Some (TextStr (summary_avgSpeed (total_stats rt totalDistance totalTime) @ '' km/h''))"
    and "el_text (on_calc_timeout rt r saved s) ''statTotalTime''
           = Some (TextStr (totalTimeFormatted (total_stats rt totalDistance totalTime)))"
proof -
  obtain t where c: "count_trip_data r s = (t, totalDistance, totalTime)"
    using assms by (cases "count_trip_data r s") auto
  show "el_text (on_calc_timeout rt r saved s) ''statDistance''
           = Some (TextStr (totalDistanceKm (total_stats rt totalDistance totalTime) @ '' km''))"
    and "el_text (on_calc_timeout rt r saved s) ''statAvgSpeed''
           = Some (TextStr (summary_avgSpeed (total_stats rt totalDistance totalTime) @ '' km/h''))"
    and "el_text (on_calc_timeout rt r saved s) ''statTotalTime''
           = Some (TextStr (totalTimeFormatted (total_stats rt totalDistance totalTime)))"
    by (simp_all add: on_calc_timeout_def Let_def c show_summary_text)
qed

lemma stats_values:
  "click_stats rt (Fin 12345) (Fin 1830)
     = \<lparr>distanceKm = ''12.35'', popup_avgSpeed = ''24.3'', durationFormatted = ''30:30''\<rparr>"
  "total_stats rt (Fin 12345) (Fin 1830)
     = \<lparr>totalDistanceKm = ''12.3'', summary_avgSpeed = ''24.3'', totalTimeFormatted = ''30m''\<rparr>"
  by code_simp+

text \<open>
  Claim C2. With the totals 12345 m and 1830 s, whether they come from the stored entry
  of the layer or from the features rendered for it, the popup of a click shows the
  distance 12.35, the average speed 24.3 and the duration 30:30. With these totals
  collected over the trip layers, the timeout of \<open>loadAllTripData\<close>, and likewise that of
  \<open>calculateAllTripStats\<close>, writes \<open>12.3 km\<close>, \<open>24.3 km/h\<close> and \<open>30m\<close> into the summary
  panel.
\<close>

theorem stats_example:
  "(cached_totals (allTripData s) layerId = Some (Fin 12345, Fin 1830)
      \<or> (cached_totals (allTripData s) layerId = None
          \<and> sum_features (c_rendered e layerId) = (Fin 12345, Fin 1830))
    \<longrightarrow> popups (on_layer_click rt layerId props e s) = popups s @
          [\<lparr>p_lngLat = c_lngLat e, p_title = trip_name layerId,
            p_fields =
              [(''Speed at point'', FProp (Some (or_zero (props ''Speed'')))),
               (''Average speed'', FText ''24.3''),
               (''Total distance'', FText ''12.35''),
               (''Duration'', FText ''30:30'')]\<rparr>])
   \<and> (snd (collect_trip_data rendered u) = (Fin 12345, Fin 1830)
    \<longrightarrow> el_text (on_stats_timeout rt rendered saved u) ''statDistance'' = Some (TextStr ''12.3 km'')
        \<and> el_text (on_stats_timeout rt rendered saved u) ''statAvgSpeed'' = Some (TextStr ''24.3 km/h'')
        \<and> el_text (on_stats_timeout rt rendered saved u) ''statTotalTime'' = Some (TextStr ''30m''))
   \<and> (snd (count_trip_data rendered u) = (Fin 12345, Fin 1830)
    \<longrightarrow> el_text (on_calc_timeout rt rendered saved u) ''statDistance'' = Some (TextStr ''12.3 km'')
        \<and> el_text (on_calc_timeout rt rendered saved u) ''statAvgSpeed'' = Some (TextStr ''24.3 km/h'')
        \<and> el_text (on_calc_timeout rt rendered saved u) ''statTotalTime'' = Some (TextStr ''30m''))"
proof -
  have 1: "popups (on_layer_click rt layerId props e s) = popups s @
          [\<lparr>p_lngLat = c_lngLat e, p_title = trip_name layerId,
            p_fields =
              [(''Speed at point'', FProp (Some (or_zero (props ''Speed'')))),
               (''Average speed'', FText ''24.3''),
               (''Total distance'', FText ''12.35''),
               (''Duration'', FText ''30:30'')]\<rparr>]"
    if "cached_totals (allTripData s) layerId = Some (Fin 12345, Fin 1830)
      \<or> (cached_totals (allTripData s) layerId = None
          \<and> sum_features (c_rendered e layerId) = (Fin 12345, Fin 1830))"
    using that by (auto simp: on_layer_click_popup stats_values(1))
  have 2: "el_text (on_stats_timeout rt rendered saved u) ''statDistance'' = Some (TextStr ''12.3 km'')
        \<and> el_text (on_stats_timeout rt rendered saved u) ''statAvgSpeed'' = Some (TextStr ''24.3 km/h'')
        \<and> el_text (on_stats_timeout rt rendered saved u) ''statTotalTime'' = Some (TextStr ''30m'')"
    if "snd (collect_trip_data rendered u) = (Fin 12345, Fin 1830)"
    using on_stats_timeout_text [OF that, of rt saved] by (simp add: stats_values(2))
  have 3: "el_text (on_calc_timeout rt rendered saved u) ''statDistance'' = Some (TextStr ''12.3 km'')
        \<and> el_text (on_calc_timeout rt rendered saved u) ''statAvgSpeed'' = Some (TextStr ''24.3 km/h'')
        \<and> el_text (on_calc_timeout rt rendered saved u) ''statTotalTime'' = Some (TextStr ''30m'')"
    if "snd (count_trip_data rendered u) = (Fin 12345, Fin 1830)"
    using on_calc_timeout_text [OF that, of rt saved] by (simp add: stats_values(2))
  show ?thesis
    using 1 2 3 by blast
qed

lemma ride_facts:
  "cached_totals (allTripData two_trips) ''trip_a'' = None"
  "sum_features (c_rendered ride_click ''trip_a'') = (Fin 12345, Fin 1830)"
  "snd (collect_trip_data ride_rendered two_trips) = (Fin 12345, Fin 1830)"
  "snd (count_trip_data ride_rendered two_trips) = (Fin 12345, Fin 1830)"
  by code_simp+

theorem stats_example_witness:
  "popups (on_layer_click no_rt ''trip_a'' ride ride_click two_trips) = popups two_trips @
     [\<lparr>p_lngLat = c_lngLat ride_click, p_title = trip_name ''trip_a'',
       p_fields =
         [(''Speed at point'', FProp (Some (or_zero (ride ''Speed'')))),
          (''Average speed'', FText ''24.3''),
          (''Total distance'', FText ''12.35''),
          (''Duration'', FText ''30:30'')]\<rparr>]
   \<and> el_text (on_stats_timeout no_rt ride_rendered ((Fin 0, Fin 0), Fin 0) two_trips) ''statDistance''
       = Some (TextStr ''12.3 km'')
   \<and> el_text (on_calc_timeout no_rt ride_rendered ((Fin 0, Fin 0), Fin 0) two_trips) ''statTotalTime''
       = Some (TextStr ''30m'')"
  using stats_example [of two_trips "''trip_a''" ride_click no_rt ride ride_rendered two_trips
      "((Fin 0, Fin 0), Fin 0)"]
  by (simp add: ride_facts)

section \<open>The trip layers are fixed at load\<close>

lemma kept_refl [simp]: "kept s s"
  by (simp add: kept_def)

lemma kept_fold:
  assumes "\<And>x t. kept s t \<Longrightarrow> kept s (f x t)" and "kept s t"
  shows "kept s (fold f xs t)"
  using assms(2) by (induction xs arbitrary: t) (auto intro: assms(1))

lemma setLayoutProperty_simps [simp]:
  "tripLayers (setLayoutProperty i n v s) = tripLayers s"
  "dom (layers (setLayoutProperty i n v s)) = dom (layers s)"
  by (auto simp: setLayoutProperty_def Let_def map_error_def split: option.splits)

lemma setFilter_simps [simp]:
  "tripLayers (setFilter i f s) = tripLayers s"
  "dom (layers (setFilter i f s)) = dom (layers s)"
  by (auto simp: setFilter_def Let_def map_error_def split: option.splits)

lemma kept_prims [intro]:
  "kept s t \<Longrightarrow> kept s (emit e t)"
  "kept s t \<Longrightarrow> kept s (setPaintProperty i n v t)"
  "kept s t \<Longrightarrow> kept s (setLayoutProperty i n w t)"
  "kept s t \<Longrightarrow> kept s (setFilter i f t)"
  "kept s t \<Longrightarrow> kept s (set_text el x t)"
  "kept s t \<Longrightarrow> kept s (set_display el d t)"
  "kept s t \<Longrightarrow> kept s (show_popup p t)"
  "kept s t \<Longrightarrow> kept s (set_checked el b t)"
  "kept s t \<Longrightarrow> kept s (set_value el w t)"
  by (simp_all add: kept_def set_checked_def set_value_def)

lemma kept_updateStats [intro]: "kept s t \<Longrightarrow> kept s (updateStats t)"
  by (auto simp: updateStats_def Let_def)

lemma kept_on_tripFilter_change: "kept s (on_tripFilter_change v s)"
  unfolding on_tripFilter_change_def
  by (intro kept_updateStats kept_fold) auto

lemma kept_on_tripsCheckbox_change: "kept s (on_tripsCheckbox_change b s)"
  unfolding on_tripsCheckbox_change_def Let_def
  by (intro kept_fold) auto

lemma kept_on_speedSegments_change: "kept s (on_speedSegments_change b s)"
  unfolding on_speedSegments_change_def
  by (auto intro!: kept_fold kept_prims)

lemma kept_speedMode [intro]: "kept s t \<Longrightarrow> kept s (t\<lparr>speedMode := v\<rparr>)"
  by (simp add: kept_def)

lemma kept_on_speedMode_change: "kept s (on_speedMode_change v s)"
  unfolding on_speedMode_change_def Let_def
  by (auto intro!: kept_fold kept_prims kept_speedMode)

lemma kept_on_aggregated_change: "kept s (on_aggregated_change b s)"
  unfolding on_aggregated_change_def Let_def
  by (auto intro!: kept_prims split: option.splits)

lemma kept_on_minSamples_input: "kept s (on_minSamples_input v s)"
  unfolding on_minSamples_input_def Let_def
  by (auto intro!: kept_prims)

lemma kept_trans: "kept s t \<Longrightarrow> kept t u \<Longrightarrow> kept s u"
  by (simp add: kept_def)

lemma kept_dispatch: "kept s (dispatch ev s)"
proof (cases ev)
  case (TripFilterChange v)
  have "kept s (set_value ''tripFilter'' v s)" by auto
  then show ?thesis
    using kept_on_tripFilter_change [of "set_value ''tripFilter'' v s" v]
    by (auto simp: TripFilterChange Let_def intro: kept_trans)
next
  case (TripsCheckboxChange b)
  have "kept s (set_checked ''tripsCheckbox'' b s)" by auto
  then show ?thesis
    using kept_on_tripsCheckbox_change [of "set_checked ''tripsCheckbox'' b s" b]
    by (auto simp: TripsCheckboxChange Let_def intro: kept_trans)
next
  case (SpeedSegmentsChange b)
  have "kept s (set_checked ''speedSegmentsCheckbox'' b s)" by auto
  then show ?thesis
    using kept_on_speedSegments_change [of "set_checked ''speedSegmentsCheckbox'' b s" b]
    by (auto simp: SpeedSegmentsChange Let_def intro: kept_trans)
next
  case (SpeedModeChange v)
  have "kept s (s\<lparr>radio_checked := Some v\<rparr>)" by (simp add: kept_def)
  then show ?thesis
    using kept_on_speedMode_change [of "s\<lparr>radio_checked := Some v\<rparr>" v]
    by (auto simp: SpeedModeChange Let_def intro: kept_trans)
next
  case (AggregatedChange b)
  have "kept s (set_checked ''aggregatedCheckbox'' b s)" by auto
  then show ?thesis
    using kept_on_aggregated_change [of "set_checked ''aggregatedCheckbox'' b s" b]
    by (auto simp: AggregatedChange Let_def intro: kept_trans)
next
  case (MinSamplesInput v)
  have "kept s (set_value ''minSamplesSlider'' v s)" by auto
  then show ?thesis
    using kept_on_minSamples_input [of "set_value ''minSamplesSlider'' v s" v]
    by (auto simp: MinSamplesInput Let_def intro: kept_trans)
next
  case (TripLayerClick l props lngLat)
  have "kept s (fold (\<lambda>l' t. if l' = l then on_trip_click props lngLat t else t) (tripLayers s) s)"
    by (intro kept_fold) (auto simp: on_trip_click_def)
  then show ?thesis
    by (simp add: TripLayerClick)
next
  case (AggregatedClick props lngLat)
  then show ?thesis
    by (auto simp: on_aggregated_click_def)
next
  case (LayerMouseEnter l)
  then show ?thesis by (simp add: kept_def)
next
  case (LayerMouseLeave l)
  then show ?thesis by (simp add: kept_def)
qed

lemma kept_sel_updates [intro]:
  "kept s t \<Longrightarrow> kept s (t\<lparr>showSpeedColors := b\<rparr>)"
  "kept s t \<Longrightarrow> kept s (t\<lparr>radio_checked := r\<rparr>)"
  "kept s t \<Longrightarrow> kept s (t\<lparr>stats_timer := x\<rparr>)"
  "kept s t \<Longrightarrow> kept s (t\<lparr>calc_timer := x\<rparr>)"
  "kept s t \<Longrightarrow> kept s (t\<lparr>tripStatsCalculated := b\<rparr>)"
  "kept s t \<Longrightarrow> kept s (t\<lparr>allTripData := d\<rparr>)"
  "kept s t \<Longrightarrow> kept s (t\<lparr>cursor := c\<rparr>)"
  "kept s t \<Longrightarrow> kept s (setCenter ce t)"
  "kept s t \<Longrightarrow> kept s (setZoom z t)"
  "kept s t \<Longrightarrow> kept s (jumpTo ce z t)"
  by (simp_all add: kept_def setCenter_def setZoom_def jumpTo_def)

lemma kept_on_speedColors_change: "kept s (on_speedColors_change b s)"
  unfolding on_speedColors_change_def Let_def
  by (auto intro!: kept_fold kept_prims kept_sel_updates)

lemma kept_on_speedMode_change_sel: "kept s (on_speedMode_change_sel v s)"
  unfolding on_speedMode_change_sel_def Let_def
  by (auto intro!: kept_fold kept_prims kept_speedMode)

lemma kept_show_summary [intro]: "kept s t \<Longrightarrow> kept s (show_summary st t)"
  unfolding show_summary_def by (intro kept_prims)

lemma kept_fold_fst:
  assumes "\<And>x p. kept s (fst p) \<Longrightarrow> kept s (fst (f x p))" and "kept s (fst p)"
  shows "kept s (fst (fold f xs p))"
  using assms(2)
proof (induction xs arbitrary: p)
  case Nil
  then show ?case by simp
next
  case (Cons x xs)
  have "kept s (fst (f x p))"
    using Cons.prems by (rule assms(1))
  then have "kept s (fst (fold f xs (f x p)))"
    by (rule Cons.IH)
  then show ?case by simp
qed

lemma kept_collect_step: "kept s (fst p) \<Longrightarrow> kept s (fst (collect_step rendered x p))"
  by (cases p) (auto simp: collect_step_def split: prod.splits intro!: kept_prims kept_sel_updates)

lemma kept_count_step: "kept s (fst p) \<Longrightarrow> kept s (fst (count_step rendered x p))"
  by (cases p) (auto simp: count_step_def split: prod.splits intro!: kept_prims)

lemma kept_collect_trip_data: "kept s t \<Longrightarrow> kept s (fst (collect_trip_data rendered t))"
  unfolding collect_trip_data_def
  using kept_fold_fst [of s "collect_step rendered" "(t, Fin 0, Fin 0)" "tripLayers t"]
  by (simp add: kept_collect_step)

lemma kept_count_trip_data: "kept s t \<Longrightarrow> kept s (fst (count_trip_data rendered t))"
  unfolding count_trip_data_def
  using kept_fold_fst [of s "count_step rendered" "(t, Fin 0, Fin 0)" "tripLayers t"]
  by (simp add: kept_count_step)

lemma kept_on_stats_timeout:
  assumes "kept s t"
  shows "kept s (on_stats_timeout rt rendered saved t)"
proof -
  let ?t1 = "emit (ConsoleLog ''Calculating stats from zoomed out view...'') t"
  obtain t2 a b where c: "collect_trip_data rendered ?t1 = (t2, a, b)"
    by (cases "collect_trip_data rendered ?t1")
  have "kept s ?t1"
    using assms by auto
  then have "kept s t2"
    using kept_collect_trip_data [of s ?t1 rendered] by (simp add: c)
  then show ?thesis
    unfolding on_stats_timeout_def Let_def c
    by (auto intro!: kept_prims kept_sel_updates kept_show_summary)
qed

lemma kept_on_calc_timeout: "kept s (on_calc_timeout rt rendered saved s)"
proof -
  obtain t2 a b where c: "count_trip_data rendered s = (t2, a, b)"
    by (cases "count_trip_data rendered s")
  have "kept s t2"
    using kept_count_trip_data [of s s rendered] by (simp add: c)
  then show ?thesis
    unfolding on_calc_timeout_def Let_def c
    by (auto intro!: kept_prims kept_sel_updates kept_show_summary)
qed

lemma kept_calculateAllTripStats: "kept s (calculateAllTripStats s)"
  unfolding calculateAllTripStats_def Let_def
  by (auto intro!: kept_prims kept_sel_updates)

lemma kept_dispatch_sel: "kept s (dispatch_sel rt ev s)"
proof (cases ev)
  case (SpeedColorsChange b)
  have "kept s (set_checked ''speedColorsCheckbox'' b s)" by auto
  then show ?thesis
    using kept_on_speedColors_change [of "set_checked ''speedColorsCheckbox'' b s" b]
    by (auto simp: SpeedColorsChange Let_def intro: kept_trans)
next
  case (SelSpeedModeChange v)
  have "kept s (s\<lparr>radio_checked := Some v\<rparr>)" by auto
  then show ?thesis
    using kept_on_speedMode_change_sel [of "s\<lparr>radio_checked := Some v\<rparr>" v]
    by (auto simp: SelSpeedModeChange Let_def intro: kept_trans)
next
  case (MapClick e)
  show ?thesis
    using map_click_frame [of s rt e] by (simp add: MapClick same_frame_def kept_def)
next
  case (StatsTimeout rendered)
  show ?thesis
    by (auto simp: StatsTimeout split: option.splits intro!: kept_on_stats_timeout kept_sel_updates)
next
  case (TripMouseEnter l)
  then show ?thesis by (simp add: kept_def)
next
  case (TripMouseLeave l)
  then show ?thesis by (simp add: kept_def)
qed

lemma addLayer_simps [simp]:
  "tripLayers (addLayer i l s) = tripLayers s"
  "sources (addLayer i l s) = sources s"
  by (simp_all add: addLayer_def Let_def map_error_def emit_def)

lemma fold_addLayer_simps [simp]:
  "tripLayers (fold (\<lambda>i. addLayer i (f i)) xs s) = tripLayers s"
  "sources (fold (\<lambda>i. addLayer i (f i)) xs s) = sources s"
  by (induction xs arbitrary: s) simp_all

lemma add_option_simps [simp]:
  "tripLayers (add_option i s) = tripLayers s" "layers (add_option i s) = layers s"
  "sources (add_option i s) = sources s" "trace (add_option i s) = trace s"
  by (simp_all add: add_option_def)

lemma fold_add_option_simps [simp]:
  "tripLayers (fold add_option xs s) = tripLayers s" "layers (fold add_option xs s) = layers s"
  "sources (fold add_option xs s) = sources s" "trace (fold add_option xs s) = trace s"
  by (induction xs arbitrary: s) simp_all

lemma updateStats_simps [simp]:
  "tripLayers (updateStats s) = tripLayers s" "layers (updateStats s) = layers s"
  "sources (updateStats s) = sources s" "trace (updateStats s) = trace s"
  by (simp_all add: updateStats_def Let_def set_text_def)

lemma load_aggregated_tripLayers:
  "tripLayers (final (load_aggregated cfg resp s)) = tripLayers s"
  by (auto simp: final_def load_aggregated_def Let_def addSource_def setupAggregatedControls_def
      split: fetched.splits option.splits)

lemma on_load_tripLayers:
  "tripLayers (on_load cfg trips_resp aggregated_resp s)
     = tripLayers (final (load_trips cfg trips_resp
         (emit (ConsoleLog ''Base map loaded, now loading data...'')
            (emit (ConsoleLog ''Base map loaded successfully'') s))))"
proof -
  let ?s2 = "emit (ConsoleLog ''Base map loaded, now loading data...'')
               (emit (ConsoleLog ''Base map loaded successfully'') s)"
  let ?s3 = "case load_trips cfg trips_resp ?s2 of
               Done t \<Rightarrow> t | Thrown t \<Rightarrow> emit (ConsoleError ''Error loading trips:'') t"
  have "tripLayers (on_load cfg trips_resp aggregated_resp s)
          = tripLayers (final (load_aggregated cfg aggregated_resp ?s3))"
    by (simp add: on_load_def Let_def final_def split: outcome.splits)
  also have "\<dots> = tripLayers ?s3"
    by (rule load_aggregated_tripLayers)
  also have "\<dots> = tripLayers (final (load_trips cfg trips_resp ?s2))"
    by (simp add: final_def split: outcome.splits)
  finally show ?thesis .
qed

lemma load_trips_tripLayers:
  assumes "''trips'' \<notin> dom (sources s)"
  shows "tripLayers (final (load_trips cfg (Parsed \<lparr>vector_layers = Some ids\<rparr>) s)) = ids"
  using assms
  by (simp add: final_def load_trips_def Let_def addSource_def setupTripControls_def)

lemma kept_updateStats_sel: "kept s (updateStats_sel s)"
  by (auto simp: updateStats_sel_def)

lemma on_load_sel_tripLayers:
  "tripLayers (on_load_sel cfg origin present (Parsed \<lparr>vector_layers = v\<rparr>) hdr s)
     = (case v of None \<Rightarrow> [] | Some ls \<Rightarrow> ls)"
  by (auto simp: on_load_sel_def load_trips_sel_def Let_def addSource_def setupControls_def
      setupClickHandlers_def loadAllTripData_def setZoom_def setCenter_def jumpTo_def
      split: option.splits fetched.splits)

lemma kept_dispatch_part0: "kept s (dispatch_part0 ev s)"
proof (cases ev)
  case (TripLayerClick l props lngLat)
  have "kept s (fold (\<lambda>l' t. if l' = l then on_trip_click_part0 l' props lngLat t else t)
                  (tripLayers s) s)"
    by (intro kept_fold) (auto simp: on_trip_click_part0_def)
  then show ?thesis
    by (simp add: TripLayerClick dispatch_part0_def)
qed (simp_all add: dispatch_part0_def kept_dispatch del: dispatch.simps)

text \<open>
  Claim C8. When the metadata is obtained, the load listener of either viewer sets
  \<open>tripLayers\<close> to the layer ids the metadata declares in \<open>vector_layers\<close>, in the same
  order (for \<open>src/app.js\<close>, on a map that has no source named \<open>trips\<close> yet). No input
  event, timeout or statistics routine of either viewer changes \<open>tripLayers\<close>, and none
  adds a layer to the map or removes one.
\<close>

theorem trip_layers_fixed_at_load:
  "(''trips'' \<notin> dom (sources s) \<longrightarrow>
      tripLayers (on_load cfg (Parsed \<lparr>vector_layers = Some ids\<rparr>) aggregated_resp s) = ids)
   \<and> tripLayers (on_load_sel cfg origin present (Parsed \<lparr>vector_layers = Some ids\<rparr>) hdr u) = ids
   \<and> tripLayers (on_load_sel cfg origin present (Parsed \<lparr>vector_layers = None\<rparr>) hdr u) = []
   \<and> tripLayers (dispatch ev t) = tripLayers t
   \<and> dom (layers (dispatch ev t)) = dom (layers t)
   \<and> tripLayers (dispatch_sel rt sev v) = tripLayers v
   \<and> dom (layers (dispatch_sel rt sev v)) = dom (layers v)
   \<and> tripLayers (calculateAllTripStats v) = tripLayers v
   \<and> dom (layers (calculateAllTripStats v)) = dom (layers v)
   \<and> tripLayers (on_calc_timeout rt rendered saved v) = tripLayers v
   \<and> dom (layers (on_calc_timeout rt rendered saved v)) = dom (layers v)
   \<and> tripLayers (updateStats_sel v) = tripLayers v
   \<and> dom (layers (updateStats_sel v)) = dom (layers v)"
  using kept_dispatch [of t ev] kept_dispatch_sel [of v rt sev] kept_calculateAllTripStats [of v]
    kept_on_calc_timeout [of v rt rendered saved] kept_updateStats_sel [of v]
  by (simp add: kept_def on_load_tripLayers load_trips_tripLayers on_load_sel_tripLayers
      del: dispatch.simps dispatch_sel.simps)

theorem trip_layers_witness:
  "tripLayers (on_load local_config (Parsed \<lparr>vector_layers = Some [''trip_a'', ''trip_b'']\<rparr>)
     Failed (startup local_config blank)) = [''trip_a'', ''trip_b'']"
  using trip_layers_fixed_at_load [of "startup local_config blank" local_config
      "[''trip_a'', ''trip_b'']" Failed]
  by (simp add: startup_def blank_def Let_def emit_def)

section \<open>Failures while loading\<close>

lemma layers_addLayer:
  "layers (addLayer i l s) =
     (if i \<in> dom (layers s) \<or> l_source l \<notin> dom (sources s) then layers s
      else (layers s)(i \<mapsto> l))"
  by (simp add: addLayer_def Let_def map_error_def emit_def)

lemma layers_fold_addLayer:
  assumes "''trips'' \<in> dom (sources t)"
  shows "layers (fold (\<lambda>i. addLayer i (trip_layer i)) xs t) =
           (\<lambda>l. if l \<in> set xs \<and> l \<notin> dom (layers t) then Some (trip_layer l) else layers t l)"
  using assms
proof (induction xs arbitrary: t)
  case Nil
  then show ?case by simp
next
  case (Cons x xs)
  have src: "''trips'' \<in> dom (sources (addLayer x (trip_layer x) t))"
    using Cons.prems by simp
  have tl: "l_source (trip_layer x) = ''trips''"
    by (simp add: trip_layer_def)
  show ?case
    using Cons.prems
    by (auto simp: Cons.IH [OF src] layers_addLayer tl fun_eq_iff)
qed

lemma trace_addLayer:
  "set (trace (addLayer i l t))
     \<subseteq> set (trace t) \<union> range (\<lambda>j. MapCall (AddLayer j)) \<union> {ConsoleError ''Map error:''}"
  by (auto simp: addLayer_def Let_def map_error_def emit_def)

lemma trace_fold_addLayer:
  "set (trace (fold (\<lambda>i. addLayer i (f i)) xs t))
     \<subseteq> set (trace t) \<union> range (\<lambda>j. MapCall (AddLayer j)) \<union> {ConsoleError ''Map error:''}"
proof (induction xs arbitrary: t)
  case Nil
  then show ?case by auto
next
  case (Cons x xs)
  show ?case
    using Cons.IH [of "addLayer x (f x) t"] trace_addLayer [of x "f x" t] by auto
qed

lemma trace_fold_addLayer_errors:
  assumes "ConsoleError m \<in> set (trace (fold (\<lambda>i. addLayer i (f i)) xs t))"
  shows "m = ''Map error:'' \<or> ConsoleError m \<in> set (trace t)"
  using assms trace_fold_addLayer [of f xs t] by auto

text \<open>
  Claim C7, as the code has it. On a map without the three ids the program adds:
  when the trip fetch or parse fails, the failure is logged, \<open>tripLayers\<close> and the trip
  controls stay as they were and no trip layer is added, but the source \<open>trips\<close>, which
  is registered before the fetch, stays on the map; the aggregated routes are then loaded
  all the same. When the aggregated fetch or parse fails, the failure is logged, nothing
  aggregated is added, and the trip layers, the trip source and the trip controls are
  those the trip loading has set up.
\<close>

theorem load_failures_are_isolated:
  assumes "''trips'' \<notin> dom (sources s)" and "''aggregated-routes'' \<notin> dom (sources s)"
    and "''aggregated-routes-layer'' \<notin> dom (layers s)"
  shows "trace (on_load cfg Failed (Parsed \<lparr>features = Some fs\<rparr>) s) = trace s @
           [ConsoleLog ''Base map loaded successfully'',
            ConsoleLog ''Base map loaded, now loading data...'',
            ConsoleLog ''Fetching PMTiles from:'', MapCall (AddSource ''trips''),
            ConsoleError ''Error loading trips:'',
            ConsoleLog ''Fetching aggregated routes from:'',
            ConsoleLog ''Aggregated data loaded:'', MapCall (AddSource ''aggregated-routes''),
            MapCall (AddLayer ''aggregated-routes-layer''),
            ConsoleLog ''Aggregated routes layer added'']
       \<and> tripLayers (on_load cfg Failed (Parsed \<lparr>features = Some fs\<rparr>) s) = tripLayers s
       \<and> trip_controls (on_load cfg Failed (Parsed \<lparr>features = Some fs\<rparr>) s) = trip_controls s
       \<and> layers (on_load cfg Failed (Parsed \<lparr>features = Some fs\<rparr>) s)
           = (layers s)(''aggregated-routes-layer'' \<mapsto> aggregated_layer)
       \<and> sources (on_load cfg Failed (Parsed \<lparr>features = Some fs\<rparr>) s)
           = (sources s)(''trips'' \<mapsto> VectorSource (PMTILES_URL cfg),
                         ''aggregated-routes'' \<mapsto> GeoJSONSource fs)
       \<and> aggregated_controls (on_load cfg Failed (Parsed \<lparr>features = Some fs\<rparr>) s)
       \<and> ConsoleError ''Error loading aggregated routes:''
           \<in> set (trace (on_load cfg (Parsed \<lparr>vector_layers = Some ids\<rparr>) Failed s))
       \<and> (ConsoleError ''Error loading trips:''
             \<in> set (trace (on_load cfg (Parsed \<lparr>vector_layers = Some ids\<rparr>) Failed s))
           \<longrightarrow> ConsoleError ''Error loading trips:'' \<in> set (trace s))
       \<and> tripLayers (on_load cfg (Parsed \<lparr>vector_layers = Some ids\<rparr>) Failed s) = ids
       \<and> trip_controls (on_load cfg (Parsed \<lparr>vector_layers = Some ids\<rparr>) Failed s)
       \<and> layers (on_load cfg (Parsed \<lparr>vector_layers = Some ids\<rparr>) Failed s)
           = (\<lambda>l. if l \<in> set ids \<and> l \<notin> dom (layers s) then Some (trip_layer l) else layers s l)
       \<and> sources (on_load cfg (Parsed \<lparr>vector_layers = Some ids\<rparr>) Failed s)
           = (sources s)(''trips'' \<mapsto> VectorSource (PMTILES_URL cfg))
       \<and> aggregated_controls (on_load cfg (Parsed \<lparr>vector_layers = Some ids\<rparr>) Failed s)
           = aggregated_controls s"
proof -
  let ?a = "on_load cfg Failed (Parsed \<lparr>features = Some fs\<rparr>) s"
  let ?b = "on_load cfg (Parsed \<lparr>vector_layers = Some ids\<rparr>) Failed s"
  have a: "?a =
    setupAggregatedControls
      (emit (ConsoleLog ''Aggregated routes layer added'')
        (addLayer ''aggregated-routes-layer'' aggregated_layer
          ((emit (MapCall (AddSource ''aggregated-routes''))
             (emit (ConsoleLog ''Aggregated data loaded:'')
               (emit (ConsoleLog ''Fetching aggregated routes from:'')
                 (emit (ConsoleError ''Error loading trips:'')
                   ((emit (MapCall (AddSource ''trips''))
                      (emit (ConsoleLog ''Fetching PMTiles from:'')
                        (emit (ConsoleLog ''Base map loaded, now loading data...'')
                          (emit (ConsoleLog ''Base map loaded successfully'') s))))
                    \<lparr>sources := (sources s)(''trips'' \<mapsto> VectorSource (PMTILES_URL cfg))\<rparr>)))))
           \<lparr>sources := (sources s)(''trips'' \<mapsto> VectorSource (PMTILES_URL cfg),
                                     ''aggregated-routes'' \<mapsto> GeoJSONSource fs)\<rparr>)))"
    using assms(1,2)
    by (simp add: on_load_def load_trips_def load_aggregated_def Let_def addSource_def emit_def)
  have al: "l_source aggregated_layer = ''aggregated-routes''"
    by (simp add: aggregated_layer_def)
  have A: "trace ?a = trace s @
           [ConsoleLog ''Base map loaded successfully'',
            ConsoleLog ''Base map loaded, now loading data...'',
            ConsoleLog ''Fetching PMTiles from:'', MapCall (AddSource ''trips''),
            ConsoleError ''Error loading trips:'',
            ConsoleLog ''Fetching aggregated routes from:'',
            ConsoleLog ''Aggregated data loaded:'', MapCall (AddSource ''aggregated-routes''),
            MapCall (AddLayer ''aggregated-routes-layer''),
            ConsoleLog ''Aggregated routes layer added'']"
    "tripLayers ?a = tripLayers s" "trip_controls ?a = trip_controls s"
    "layers ?a = (layers s)(''aggregated-routes-layer'' \<mapsto> aggregated_layer)"
    "sources ?a = (sources s)(''trips'' \<mapsto> VectorSource (PMTILES_URL cfg),
                         ''aggregated-routes'' \<mapsto> GeoJSONSource fs)"
    "aggregated_controls ?a"
    unfolding a using assms(3)
    by (simp_all add: setupAggregatedControls_def addLayer_def Let_def emit_def al)
  let ?t4 = "(emit (MapCall (AddSource ''trips''))
                (emit (ConsoleLog ''Fetching PMTiles from:'')
                  (emit (ConsoleLog ''Base map loaded, now loading data...'')
                    (emit (ConsoleLog ''Base map loaded successfully'') s))))
             \<lparr>sources := (sources s)(''trips'' \<mapsto> VectorSource (PMTILES_URL cfg))\<rparr>"
  let ?t5 = "emit (ConsoleLog ''Found trip layers:'')
               ((emit (ConsoleLog ''TileJSON response:'') ?t4)\<lparr>tripLayers := ids\<rparr>)"
  let ?t6 = "fold (\<lambda>layerId. addLayer layerId (trip_layer layerId)) ids ?t5"
  have b: "?b =
    emit (ConsoleError ''Error loading aggregated routes:'')
      (emit (ConsoleLog ''Fetching aggregated routes from:'')
        (updateStats (setupTripControls
          (fold add_option ids (emit (ConsoleLog ''Loaded trip layers'') ?t6)))))"
    using assms(1)
    by (simp add: on_load_def load_trips_def load_aggregated_def Let_def addSource_def
        emit_simps(1,2,3,4))
  have t5: "''trips'' \<in> dom (sources ?t5)" "layers ?t5 = layers s" "trace ?t5 = trace s @
       [ConsoleLog ''Base map loaded successfully'',
        ConsoleLog ''Base map loaded, now loading data...'',
        ConsoleLog ''Fetching PMTiles from:'', MapCall (AddSource ''trips''),
        ConsoleLog ''TileJSON response:'', ConsoleLog ''Found trip layers:'']"
    by (simp_all add: emit_def)
  have B1: "ConsoleError ''Error loading aggregated routes:'' \<in> set (trace ?b)"
    unfolding b by simp
  have B2: "ConsoleError ''Error loading trips:'' \<in> set (trace s)"
    if "ConsoleError ''Error loading trips:'' \<in> set (trace ?b)"
  proof -
    from that have "ConsoleError ''Error loading trips:'' \<in> set (trace ?t6)"
      unfolding b by (simp add: setupTripControls_def)
    from trace_fold_addLayer_errors [OF this] show ?thesis
      by (simp add: t5(3))
  qed
  have B3: "tripLayers ?b = ids" "trip_controls ?b"
    "sources ?b = (sources s)(''trips'' \<mapsto> VectorSource (PMTILES_URL cfg))"
    "aggregated_controls ?b = aggregated_controls s"
    unfolding b
    by (simp_all add: setupTripControls_def updateStats_def Let_def set_text_def emit_def)
       (rule fold_inv, simp_all add: add_option_def emit_def,
        rule fold_inv, simp_all add: addLayer_def Let_def map_error_def emit_def)+
  have B4: "layers ?b = (\<lambda>l. if l \<in> set ids \<and> l \<notin> dom (layers s) then Some (trip_layer l) else layers s l)"
    unfolding b using layers_fold_addLayer [OF t5(1), of ids, unfolded t5(2)]
    by (simp add: setupTripControls_def)
  show ?thesis
    using A B1 B2 B3 B4 by blast
qed

lemma startup_blank_facts:
  "sources (startup local_config blank) = Map.empty"
  "layers (startup local_config blank) = Map.empty"
  "tripLayers (startup local_config blank) = []"
  "radio_checked (startup local_config blank) = Some ''gradient''"
  by (simp_all add: startup_def blank_def Let_def emit_def)

theorem load_failures_witness:
  "layers (on_load local_config Failed (Parsed \<lparr>features = Some []\<rparr>) (startup local_config blank))
     = [''aggregated-routes-layer'' \<mapsto> aggregated_layer]
   \<and> aggregated_controls
        (on_load local_config Failed (Parsed \<lparr>features = Some []\<rparr>) (startup local_config blank))
   \<and> tripLayers
        (on_load local_config (Parsed \<lparr>vector_layers = Some [''trip_a'']\<rparr>) Failed
           (startup local_config blank)) = [''trip_a'']"
  using load_failures_are_isolated [of "startup local_config blank" local_config "[]" "[''trip_a'']"]
  by (simp add: startup_blank_facts)

text \<open>
  Claim C7 as stated fails in \<open>src/app.js\<close>: after a failed trip fetch the source
  \<open>trips\<close> is on the map.
\<close>

theorem trip_source_stays_after_failed_fetch:
  "sources (on_load local_config Failed (Parsed \<lparr>features = Some []\<rparr>)
     (startup local_config blank)) ''trips'' \<noteq> None"
  by (simp add: on_load_def load_trips_def load_aggregated_def Let_def addSource_def
      setupAggregatedControls_def startup_blank_facts)

text \<open>
  In the variant of \<open>src/unnamed/part_000\<close> a failed read of the header or of the
  metadata leaves no trip source behind: the sources and layers are those the aggregated
  loading adds.
\<close>

lemma part0_failed_trips_leave_no_source:
  assumes "hdr = Failed \<or> meta = Failed"
    and "''aggregated-routes'' \<notin> dom (sources s)"
    and "''aggregated-routes-layer'' \<notin> dom (layers s)"
  shows "sources (on_load_part0 cfg origin hdr meta (Parsed \<lparr>features = Some fs\<rparr>) s)
           = (sources s)(''aggregated-routes'' \<mapsto> GeoJSONSource fs)"
    and "layers (on_load_part0 cfg origin hdr meta (Parsed \<lparr>features = Some fs\<rparr>) s)
           = (layers s)(''aggregated-routes-layer'' \<mapsto> aggregated_layer)"
    and "tripLayers (on_load_part0 cfg origin hdr meta (Parsed \<lparr>features = Some fs\<rparr>) s)
           = tripLayers s"
    and "ConsoleError ''Error loading trips:''
           \<in> set (trace (on_load_part0 cfg origin hdr meta (Parsed \<lparr>features = Some fs\<rparr>) s))"
    and "aggregated_controls (on_load_part0 cfg origin hdr meta (Parsed \<lparr>features = Some fs\<rparr>) s)"
proof -
  have al: "l_source aggregated_layer = ''aggregated-routes''"
    by (simp add: aggregated_layer_def)
  have t: "load_trips_part0 cfg origin hdr meta t = Thrown (emit (ConsoleLog ''Loading PMTiles from:'') t)"
    for t
    using assms(1) by (auto simp: load_trips_part0_def Let_def split: fetched.splits)
  show "sources (on_load_part0 cfg origin hdr meta (Parsed \<lparr>features = Some fs\<rparr>) s)
           = (sources s)(''aggregated-routes'' \<mapsto> GeoJSONSource fs)"
    and "layers (on_load_part0 cfg origin hdr meta (Parsed \<lparr>features = Some fs\<rparr>) s)
           = (layers s)(''aggregated-routes-layer'' \<mapsto> aggregated_layer)"
    and "tripLayers (on_load_part0 cfg origin hdr meta (Parsed \<lparr>features = Some fs\<rparr>) s)
           = tripLayers s"
    and "ConsoleError ''Error loading trips:''
           \<in> set (trace (on_load_part0 cfg origin hdr meta (Parsed \<lparr>features = Some fs\<rparr>) s))"
    and "aggregated_controls (on_load_part0 cfg origin hdr meta (Parsed \<lparr>features = Some fs\<rparr>) s)"
    using assms(2,3)
    by (simp_all add: on_load_part0_def t load_aggregated_def Let_def addSource_def addLayer_def
        setupAggregatedControls_def emit_def al)
qed

section \<open>The controls of the aggregated layer\<close>

lemma aggregated_toggle_on:
  assumes "aggregated_controls s" and "''aggregated-routes-layer'' \<in> dom (layers s)"
    and "radio_checked s = Some m"
  shows "paint_of (dispatch (AggregatedChange True) s) ''aggregated-routes-layer'' ''line-color''
           = Some (PExpr (getAggregatedSpeedColorExpression m))"
    and "layout_of (dispatch (AggregatedChange True) s) ''aggregated-routes-layer'' ''visibility''
           = Some ''visible''"
  using assms
  by (auto simp: on_aggregated_change_def Let_def set_checked_def setLayoutProperty_def
      setPaintProperty_def set_display_def emit_def paint_of_def layout_of_def)

lemma agg_kept_setPaintProperty: "agg_kept s t \<Longrightarrow> agg_kept s (setPaintProperty i n v t)"
  by (auto simp: agg_kept_def setPaintProperty_def Let_def map_error_def emit_def
      split: option.splits)

lemma agg_kept_setLayoutProperty: "agg_kept s t \<Longrightarrow> agg_kept s (setLayoutProperty i n v t)"
  by (auto simp: agg_kept_def setLayoutProperty_def Let_def map_error_def emit_def
      split: option.splits)

lemma agg_kept_on_speedMode_change: "agg_kept s (on_speedMode_change v s)"
proof -
  have 1: "agg_kept s (s\<lparr>speedMode := v\<rparr>)"
    by (simp add: agg_kept_def)
  have 2: "agg_kept s (fold (\<lambda>layerId t.
                          setPaintProperty layerId ''line-color''
                            (PExpr (getSpeedColorExpression (speedMode t))) t) xs (s\<lparr>speedMode := v\<rparr>))"
    for xs
    by (rule fold_inv) (simp_all add: agg_kept_setPaintProperty 1)
  show ?thesis
    unfolding on_speedMode_change_def Let_def
    by (auto intro!: agg_kept_setPaintProperty 1 2)
qed

lemma mode_change_effect:
  "aggregated_controls (dispatch (SpeedModeChange v) s) = aggregated_controls s"
  "dom (layers (dispatch (SpeedModeChange v) s)) = dom (layers s)"
  "radio_checked (dispatch (SpeedModeChange v) s) = Some v"
  using agg_kept_on_speedMode_change [of "s\<lparr>radio_checked := Some v\<rparr>" v]
  by (auto simp: agg_kept_def Let_def)

lemma mode_changes_effect:
  "aggregated_controls (fold dispatch (map SpeedModeChange ms) s) = aggregated_controls s
   \<and> dom (layers (fold dispatch (map SpeedModeChange ms) s)) = dom (layers s)
   \<and> radio_checked (fold dispatch (map SpeedModeChange ms) s)
       = (if ms = [] then radio_checked s else Some (last ms))"
proof (induction ms arbitrary: s)
  case Nil
  then show ?case by simp
next
  case (Cons v ms)
  show ?case
    using Cons.IH [of "dispatch (SpeedModeChange v) s"] mode_change_effect [of v s]
    by (simp del: dispatch.simps)
qed

lemma aggregated_toggle_off:
  "aggregated_controls (dispatch (AggregatedChange False) s) = aggregated_controls s"
  "dom (layers (dispatch (AggregatedChange False) s)) = dom (layers s)"
  "radio_checked (dispatch (AggregatedChange False) s) = radio_checked s"
  using agg_kept_setLayoutProperty [of "set_checked ''aggregatedCheckbox'' False s"
      "set_checked ''aggregatedCheckbox'' False s" "''aggregated-routes-layer''" "''visibility''" "''none''"]
  by (auto simp: agg_kept_def on_aggregated_change_def Let_def set_checked_def)

text \<open>
  Claim C4. With the aggregated layer loaded: after the box is unchecked, the mode is
  changed any number of times, and the box is checked again, the layer is visible and
  its line colour is the aggregated expression of the mode \<open>m\<close> that is selected at that
  moment, which is the last one chosen, or the one selected before if none was chosen.
\<close>

theorem aggregated_toggle_restores_current_mode:
  assumes "aggregated_controls s" and "''aggregated-routes-layer'' \<in> dom (layers s)"
    and "(if ms = [] then radio_checked s else Some (last ms)) = Some m"
  shows "paint_of
           (dispatch (AggregatedChange True)
              (fold dispatch (map SpeedModeChange ms) (dispatch (AggregatedChange False) s)))
           ''aggregated-routes-layer'' ''line-color''
           = Some (PExpr (getAggregatedSpeedColorExpression m))
       \<and> layout_of
           (dispatch (AggregatedChange True)
              (fold dispatch (map SpeedModeChange ms) (dispatch (AggregatedChange False) s)))
           ''aggregated-routes-layer'' ''visibility'' = Some ''visible''"
proof -
  let ?s1 = "dispatch (AggregatedChange False) s"
  let ?s2 = "fold dispatch (map SpeedModeChange ms) ?s1"
  have "aggregated_controls ?s2" "''aggregated-routes-layer'' \<in> dom (layers ?s2)"
    "radio_checked ?s2 = Some m"
    using assms mode_changes_effect [of ms ?s1] aggregated_toggle_off [of s]
    by (auto simp del: dispatch.simps split: if_splits)
  then show ?thesis
    using aggregated_toggle_on [of ?s2 m] by blast
qed

lemma loaded_facts:
  "aggregated_controls loaded" "layers loaded ''aggregated-routes-layer'' \<noteq> None"
  "radio_checked loaded = Some ''gradient''"
  by code_simp+

theorem aggregated_toggle_witness:
  "paint_of
     (dispatch (AggregatedChange True)
        (fold dispatch (map SpeedModeChange [''step'']) (dispatch (AggregatedChange False) loaded)))
     ''aggregated-routes-layer'' ''line-color''
     = Some (PExpr (getAggregatedSpeedColorExpression ''step''))"
  using aggregated_toggle_restores_current_mode [of loaded "[''step'']" "''step''"]
  by (simp add: loaded_facts domIff del: dispatch.simps)

subsection \<open>The slider\<close>

lemma round_half_even_of_int [simp]: "round_half_even (of_int n) = n"
  by (simp add: round_half_even_def)

lemma pow2_nonpos: "e \<le> 0 \<Longrightarrow> pow2 e = 1 / 2 ^ nat (- e)"
  by (cases "e = 0") (simp_all add: pow2_def)

lemma fl_pos_int:
  assumes "0 < n" and "n \<le> 2 ^ 53"
  shows "fl_pos (of_int n) = Fin (of_int n)"
proof -
  have one: "(1::rat) \<le> of_int n"
    using assms(1) by simp
  have e: "ilog2 (of_int n) = bitlen n - 1"
    using one by (simp add: ilog2_def)
  have lo: "1 \<le> bitlen n"
    using assms(1) bitlen_ge_iff_power [of 1 n] by simp
  have "n < 2 ^ nat 54"
    using assms(2) by (simp add: order_le_less_trans)
  then have hi: "bitlen n \<le> 54"
    using bitlen_le_iff_power [of n 54] by simp
  let ?e = "bitlen n - 1"
  have m: "max ?e (- 1022) = ?e"
    using lo by simp
  show ?thesis
  proof (cases "bitlen n \<le> 53")
    case True
    let ?k = "nat (53 - bitlen n)"
    have u: "pow2 (bitlen n - 53) = 1 / 2 ^ ?k"
      using True pow2_nonpos [of "bitlen n - 53"] by simp
    have q: "(of_int n :: rat) * 2 ^ ?k = of_int (n * 2 ^ ?k)"
      by simp
    have r: "round_half_even ((of_int n :: rat) * 2 ^ ?k) = n * 2 ^ ?k"
      unfolding q by (rule round_half_even_of_int)
    have "fl_pos (of_int n) = Fin (of_int (n * 2 ^ ?k) * (1 / 2 ^ ?k))"
      using True lo by (simp add: fl_pos_def e m u r Let_def)
    then show ?thesis
      by simp
  next
    case False
    then have e53: "bitlen n = 54"
      using hi by simp
    then have "2 ^ (nat 54 - 1) \<le> n"
      using bitlen_ge_iff_power [of 54 n] by simp
    then have n: "n = 2 ^ 53"
      using assms(2) by simp
    have u: "pow2 1 = 2"
      by (simp add: pow2_def)
    have q: "(of_int n :: rat) / 2 = of_int (2 ^ 52)"
      by (simp add: n)
    have r: "round_half_even ((of_int n :: rat) / 2) = 2 ^ 52"
      unfolding q by (rule round_half_even_of_int)
    have "fl_pos (of_int n) = Fin (of_int (2 ^ 52) * 2)"
      by (simp add: fl_pos_def e m u r Let_def e53 del: of_int_power of_int_numeral)
    then show ?thesis
      by (simp add: n)
  qed
qed

lemma fl_of_nat:
  assumes "k \<le> 2 ^ 53"
  shows "fl (of_nat k) = Fin (of_nat k)"
proof (cases "k = 0")
  case True
  then show ?thesis by (simp add: fl_def)
next
  case False
  have "int k \<le> 2 ^ 53"
    using assms by (metis of_nat_le_iff of_nat_numeral of_nat_power)
  then have "fl_pos (of_int (int k)) = Fin (of_int (int k))"
    using False by (intro fl_pos_int) simp_all
  then show ?thesis
    using False by (simp add: fl_def)
qed

lemma of_char_digit: "(d::nat) < 10 \<Longrightarrow> (of_char (char_of (48 + d)) :: nat) = 48 + d"
  by simp

lemma is_digit_char_of: "(d::nat) < 10 \<Longrightarrow> is_digit (char_of (48 + d))"
  by (simp add: is_digit_def of_char_digit del: of_char_of)

lemma dec_digits: "c \<in> set (dec n) \<Longrightarrow> is_digit c"
proof (induction n arbitrary: c rule: dec.induct)
  case (1 n)
  show ?case
  proof (cases "n < 10")
    case True
    with "1.prems" show ?thesis
      by (simp add: dec.simps [of n] is_digit_char_of)
  next
    case False
    with "1.prems" "1.IH" show ?thesis
      by (auto simp: dec.simps [of n] is_digit_char_of)
  qed
qed

lemma dec_not_empty: "dec n \<noteq> []"
  by (simp add: dec.simps [of n])

lemma digits_value_snoc:
  "digits_value acc (cs @ [c]) = 10 * digits_value acc cs + (of_char c - 48)"
  by (induction cs arbitrary: acc) simp_all

lemma digits_value_dec: "digits_value 0 (dec n) = n"
proof (induction n rule: dec.induct)
  case (1 n)
  show ?case
  proof (cases "n < 10")
    case True
    then show ?thesis
      by (simp add: dec.simps [of n] of_char_digit del: of_char_of)
  next
    case False
    have "n mod 10 < 10"
      by simp
    then have "(of_char (char_of (48 + n mod 10)) :: nat) = 48 + n mod 10"
      by (rule of_char_digit)
    with False show ?thesis
      using "1.IH" by (simp add: dec.simps [of n] digits_value_snoc del: of_char_of)
  qed
qed

lemma digit_facts:
  assumes "is_digit c"
  shows "\<not> is_space c" "c \<noteq> CHR ''-''" "c \<noteq> CHR ''+''" "c \<noteq> CHR ''x''" "c \<noteq> CHR ''X''"
  using assms by (auto simp: is_digit_def is_space_def)

lemma ws_len_ascii:
  assumes "(of_char c :: nat) < 128" and "\<not> is_space c"
  shows "ws_len (c # cs) = 0"
proof (cases cs)
  case Nil
  then show ?thesis using assms by simp
next
  case (Cons b bs)
  then show ?thesis
    using assms by (cases bs) (auto simp: ws2_def ws3_def Let_def)
qed

lemma drop_ws_ascii:
  assumes "(of_char c :: nat) < 128" and "\<not> is_space c"
  shows "drop_ws (c # cs) = c # cs"
  by (subst drop_ws.simps) (simp add: ws_len_ascii [OF assms])

lemma drop_ws_digit: "is_digit c \<Longrightarrow> drop_ws (c # cs) = c # cs"
  by (rule drop_ws_ascii) (auto simp: is_digit_def is_space_def)

lemma drop_ws_minus: "drop_ws (CHR ''-'' # cs) = CHR ''-'' # cs"
  by (rule drop_ws_ascii) (auto simp: is_space_def)

lemma parseInt_digits:
  assumes "ds \<noteq> []" and "\<forall>c \<in> set ds. is_digit c"
  shows "parseInt ds = fl (of_nat (digits_value 0 ds))"
proof -
  obtain c cs where ds: "ds = c # cs"
    using assms(1) by (cases ds) auto
  have c: "is_digit c"
    using assms(2) ds by simp
  have 1: "drop_ws ds = ds"
    using drop_ws_digit [OF c] by (simp add: ds)
  have 2: "takeWhile is_digit ds = ds"
    using assms(2) by (simp add: takeWhile_eq_all_conv)
  have 3: "take 2 ds \<noteq> ''0x''" "take 2 ds \<noteq> ''0X''"
  proof -
    have "cs \<noteq> [] \<Longrightarrow> is_digit (hd cs)"
      using assms(2) ds by (cases cs) auto
    then show "take 2 ds \<noteq> ''0x''" "take 2 ds \<noteq> ''0X''"
      using digit_facts(4,5) [of "hd cs"] by (cases cs; auto simp: ds)+
  qed
  show ?thesis
    using digit_facts(2,3) [OF c] 3
    by (simp add: parseInt_def 1 2 Let_def) (simp add: ds)
qed

lemma parseInt_minus_digits:
  assumes "ds \<noteq> []" and "\<forall>c \<in> set ds. is_digit c"
  shows "parseInt (CHR ''-'' # ds) = js_neg (fl (of_nat (digits_value 0 ds)))"
proof -
  obtain c cs where ds: "ds = c # cs"
    using assms(1) by (cases ds) auto
  have c: "is_digit c"
    using assms(2) ds by simp
  have 1: "drop_ws (CHR ''-'' # ds) = CHR ''-'' # ds"
    by (rule drop_ws_minus)
  have 2: "takeWhile is_digit ds = ds"
    using assms(2) by (simp add: takeWhile_eq_all_conv)
  have 3: "take 2 ds \<noteq> ''0x''" "take 2 ds \<noteq> ''0X''"
  proof -
    have "cs \<noteq> [] \<Longrightarrow> is_digit (hd cs)"
      using assms(2) ds by (cases cs) auto
    then show "take 2 ds \<noteq> ''0x''" "take 2 ds \<noteq> ''0X''"
      using digit_facts(4,5) [of "hd cs"] by (cases cs; auto simp: ds)+
  qed
  show ?thesis
    using 3 assms(1) by (simp add: parseInt_def 1 2 Let_def)
qed

lemma parseInt_int_text:
  assumes "\<bar>k\<bar> \<le> 2 ^ 53"
  shows "parseInt (int_text k) = Fin (of_int k)"
proof (cases "k < 0")
  case True
  have "nat (- k) \<le> 2 ^ 53"
    using assms True by (simp add: nat_le_iff)
  from fl_of_nat [OF this] True show ?thesis
    using parseInt_minus_digits [of "dec (nat (- k))"] dec_digits [of _ "nat (- k)"]
      dec_not_empty [of "nat (- k)"]
    by (simp add: int_text_def digits_value_dec)
next
  case False
  have "nat k \<le> 2 ^ 53"
    using assms False by (simp add: nat_le_iff)
  from fl_of_nat [OF this] False show ?thesis
    using parseInt_digits [of "dec (nat k)"] dec_digits [of _ "nat k"] dec_not_empty [of "nat k"]
    by (simp add: int_text_def digits_value_dec)
qed

text \<open>
  Claim C5. With the aggregated layer loaded, an input event of the slider whose value is
  the integer \<open>k\<close> (written in decimal, of magnitude up to \<open>2^53\<close>) installs the
  filter \<open>['>=', ['get', 'sample_count'], k]\<close> on the aggregated layer, and that filter
  admits a feature if and only if its \<open>sample_count\<close> is a number that is at least \<open>k\<close>.
\<close>

theorem slider_installs_min_samples_filter:
  assumes "aggregated_controls s" and "''aggregated-routes-layer'' \<in> dom (layers s)"
    and "\<bar>k\<bar> \<le> 2 ^ 53"
  shows "filter_of (dispatch (MinSamplesInput (int_text k)) s) ''aggregated-routes-layer''
           = Some (Ge (Get ''sample_count'') (Fin (of_int k)))
       \<and> (eval_f p (Ge (Get ''sample_count'') (Fin (of_int k)))
            \<longleftrightarrow> (\<exists>x. p ''sample_count'' = Some (Num x) \<and> of_int k \<le> x))"
proof -
  have "filter_of (dispatch (MinSamplesInput (int_text k)) s) ''aggregated-routes-layer''
           = Some (Ge (Get ''sample_count'') (Fin (of_int k)))"
    using assms(1,2)
    by (auto simp: on_minSamples_input_def Let_def parseInt_int_text [OF assms(3)] set_value_def
        set_text_def setFilter_def emit_def filter_of_def)
  moreover have "eval_f p (Ge (Get ''sample_count'') (Fin (of_int k)))
            \<longleftrightarrow> (\<exists>x. p ''sample_count'' = Some (Num x) \<and> of_int k \<le> x)"
    by (auto split: option.splits jsval.splits)
  ultimately show ?thesis by blast
qed

lemma int_text_3: "int_text 3 = ''3''"
  by code_simp

text \<open>A value with a fraction is cut at the point, as \<open>parseInt\<close> reads digits only.\<close>

lemma parseInt_fraction: "parseInt ''2.5'' = Fin 2"
  by code_simp

theorem slider_witness:
  "filter_of (dispatch (MinSamplesInput ''3'') loaded) ''aggregated-routes-layer''
     = Some (Ge (Get ''sample_count'') (Fin 3))
   \<and> eval_f [''sample_count'' \<mapsto> Num 5] (Ge (Get ''sample_count'') (Fin 3))
   \<and> \<not> eval_f [''sample_count'' \<mapsto> Num 2] (Ge (Get ''sample_count'') (Fin 3))"
  using slider_installs_min_samples_filter [of loaded 3 "[''sample_count'' \<mapsto> Num 5]"]
    slider_installs_min_samples_filter [of loaded 3 "[''sample_count'' \<mapsto> Num 2]"]
  by (simp add: loaded_facts domIff int_text_3 del: dispatch.simps)

end
